theory Spec2Isabelle
  imports Main "HOL-Library.Char_ord" "HOL-Library.List_Lexorder"
begin

section \<open>JavaScript values and string operations used by the sources\<close>

text \<open>
  Strings are lists of code units (those below 256; the sources only look for ASCII
  characters). A number is either \<open>NaN\<close> or an integer value: the sources only
  produce numbers by \<open>parseInt\<close> and by multiplying by 100, which are exact as long
  as the magnitude stays below \<open>2^53\<close>; beyond that JavaScript rounds to the nearest
  double, which this model does not follow. Negative zero is identified with zero.
\<close>

datatype jsnum = NaN | Num int

fun jsmul :: "jsnum \<Rightarrow> int \<Rightarrow> jsnum" where
  "jsmul NaN k = NaN"
| "jsmul (Num n) k = Num (n * k)"

text \<open>\<open>s.indexOf(c)\<close> for a one-character pattern: the first index, or -1.\<close>

fun indexOf :: "char \<Rightarrow> string \<Rightarrow> int" where
  "indexOf c [] = -1"
| "indexOf c (x # xs) =
     (if x = c then 0 else (let i = indexOf c xs in if i = -1 then -1 else i + 1))"

text \<open>\<open>s.replace(c, '')\<close> for a one-character string pattern: only the first
  occurrence is removed.\<close>

fun replaceFirst :: "char \<Rightarrow> string \<Rightarrow> string" where
  "replaceFirst c [] = []"
| "replaceFirst c (x # xs) = (if x = c then xs else x # replaceFirst c xs)"

text \<open>\<open>s.split(c)\<close> for a one-character separator; the empty string gives one empty
  piece.\<close>

fun split :: "char \<Rightarrow> string \<Rightarrow> string list" where
  "split c [] = [[]]"
| "split c (x # xs) =
     (if x = c then [] # split c xs
      else (case split c xs of [] \<Rightarrow> [[x]] | t # ts \<Rightarrow> (x # t) # ts))"

text \<open>\<open>parseInt(s, 10)\<close>: leading white space is skipped, one sign is read, then the
  longest run of decimal digits; no digit gives \<open>NaN\<close>. Whatever follows the digits is
  ignored.\<close>

definition isWhiteSpace :: "char \<Rightarrow> bool" where
  "isWhiteSpace c = ((of_char c :: nat) \<in> {9, 10, 11, 12, 13, 32, 160})"

definition isDigit :: "char \<Rightarrow> bool" where
  "isDigit c = (48 \<le> (of_char c :: nat) \<and> (of_char c :: nat) \<le> 57)"

fun digitsValue :: "nat \<Rightarrow> string \<Rightarrow> nat" where
  "digitsValue acc [] = acc"
| "digitsValue acc (c # cs) = digitsValue (acc * 10 + (of_char c - 48)) cs"

definition parseSigned :: "bool \<Rightarrow> string \<Rightarrow> jsnum" where
  "parseSigned neg s =
     (let ds = takeWhile isDigit s
      in if ds = [] then NaN
         else Num ((if neg then -1 else 1) * int (digitsValue 0 ds)))"

definition parseInt :: "string \<Rightarrow> jsnum" where
  "parseInt s =
     (case dropWhile isWhiteSpace s of
        [] \<Rightarrow> NaN
      | c # r \<Rightarrow>
          if c = CHR ''-'' then parseSigned True r
          else if c = CHR ''+'' then parseSigned False r
          else parseSigned False (c # r))"

section \<open>WaypointModel\<close>

text \<open>
  Two revisions of the class are among the sources: \<open>WaypointModel.js\<close>, whose bearing
  and distance methods answer leniently and whose hold parameters start as \<open>null\<close>, and
  the later revision (\<open>part_001\<close>) with the strict guard
  \<open>_ensureNonVectorWaypointsForThisAndWaypoint\<close> and \<open>DEFAULT_HOLD_PARAMETERS\<close>.
  Methods whose text is the same in both are embedded once. Where the two differ, the
  plain name is the later revision and the name with the prefix \<open>legacy\<close> is
  \<open>WaypointModel.js\<close>.

  The fields \<open>_holdParameters\<close>, \<open>_isFlyOverWaypoint\<close>, \<open>_isHoldWaypoint\<close>,
  \<open>_isVectorWaypoint\<close>, \<open>_name\<close> and \<open>_positionModel\<close> carry the prefix \<open>u\<close> here;
  \<open>None\<close> stands for \<open>null\<close> (and for \<open>undefined\<close> in \<open>inboundHeading\<close>).
\<close>

datatype error =
    InvalidData
  | InvalidRestrictedFix
  | NotAString
  | InvalidRestrictionPrefix "char option"
  | UnknownFix string
  | NotAWaypointModel
  | VectorWaypoint
  | NullDereference
  | MultipleAirway string
  | MultipleProcedure string
  | External string

record 'n holdParameters =
  inboundHeading :: "'n option"
  legLength :: int
  timer :: jsnum
  turnDirection :: string

record ('p, 'n) WaypointModel =
  altitudeMaximum :: jsnum
  altitudeMinimum :: jsnum
  speedMaximum :: jsnum
  speedMinimum :: jsnum
  u_holdParameters :: "'n holdParameters option"
  u_isFlyOverWaypoint :: bool
  u_isHoldWaypoint :: bool
  u_isVectorWaypoint :: bool
  u_name :: string
  u_positionModel :: "'p option"

text \<open>The argument of the constructor and of \<open>init\<close>: a string, an array (of strings),
  or any other value.\<close>

datatype jsdata = JString string | JArray "string list" | JOther

text \<open>
  Modelled from the spec: \<open>INVALID_INDEX\<close> and \<open>INVALID_NUMBER\<close> are constants of
  \<open>globalConstants\<close>, which is not among the sources. The spec gives the unset
  sentinel as -1 and reads \<open>indexOf(c) !== INVALID_INDEX\<close> as "the token contains c".
\<close>

definition INVALID_INDEX :: int where
  "INVALID_INDEX = -1"

definition INVALID_NUMBER :: jsnum where
  "INVALID_NUMBER = Num (-1)"

subsection \<open>Getters\<close>

definition isFlyOverWaypoint :: "('p, 'n) WaypointModel \<Rightarrow> bool" where
  "isFlyOverWaypoint w = u_isFlyOverWaypoint w"

definition isHoldWaypoint :: "('p, 'n) WaypointModel \<Rightarrow> bool" where
  "isHoldWaypoint w = u_isHoldWaypoint w"

definition isVectorWaypoint :: "('p, 'n) WaypointModel \<Rightarrow> bool" where
  "isVectorWaypoint w = u_isVectorWaypoint w"

definition positionModel :: "('p, 'n) WaypointModel \<Rightarrow> 'p option" where
  "positionModel w = u_positionModel w"

definition holdParameters :: "('p, 'n) WaypointModel \<Rightarrow> 'n holdParameters option" where
  "holdParameters w = (if \<not> u_isHoldWaypoint w then None else u_holdParameters w)"

subsection \<open>Special waypoints\<close>

definition initFlyOverWaypoint :: "('p, 'n) WaypointModel \<Rightarrow> ('p, 'n) WaypointModel" where
  "initFlyOverWaypoint w = w\<lparr>u_isFlyOverWaypoint := True\<rparr>"

definition initHoldWaypoint :: "('p, 'n) WaypointModel \<Rightarrow> ('p, 'n) WaypointModel" where
  "initHoldWaypoint w = w\<lparr>u_isHoldWaypoint := True\<rparr>"

definition legacy_initHoldWaypoint :: "('p, 'n) WaypointModel \<Rightarrow> ('p, 'n) WaypointModel" where
  "legacy_initHoldWaypoint w =
     w\<lparr>u_isHoldWaypoint := True,
       u_holdParameters := Some \<lparr>inboundHeading = None, legLength = 1, timer = INVALID_NUMBER,
                                  turnDirection = ''right''\<rparr>\<rparr>"

definition initVectorWaypoint :: "('p, 'n) WaypointModel \<Rightarrow> ('p, 'n) WaypointModel" where
  "initVectorWaypoint w = w\<lparr>u_isVectorWaypoint := True\<rparr>"

definition initSpecialWaypoint :: "string \<Rightarrow> ('p, 'n) WaypointModel \<Rightarrow> ('p, 'n) WaypointModel" where
  "initSpecialWaypoint fixName w =
     (if indexOf CHR ''^'' fixName \<noteq> INVALID_INDEX then initFlyOverWaypoint w
      else if indexOf CHR ''@'' fixName \<noteq> INVALID_INDEX then initHoldWaypoint w
      else if indexOf CHR ''#'' fixName \<noteq> INVALID_INDEX then initVectorWaypoint w
      else w)"

definition legacy_initSpecialWaypoint :: "string \<Rightarrow> ('p, 'n) WaypointModel \<Rightarrow> ('p, 'n) WaypointModel" where
  "legacy_initSpecialWaypoint fixName w =
     (if indexOf CHR ''^'' fixName \<noteq> INVALID_INDEX then initFlyOverWaypoint w
      else if indexOf CHR ''@'' fixName \<noteq> INVALID_INDEX then legacy_initHoldWaypoint w
      else if indexOf CHR ''#'' fixName \<noteq> INVALID_INDEX then initVectorWaypoint w
      else w)"

subsection \<open>Restrictions\<close>

definition applyAltitudeRestriction :: "string \<Rightarrow> ('p, 'n) WaypointModel \<Rightarrow> ('p, 'n) WaypointModel" where
  "applyAltitudeRestriction restriction w =
     (let altitude = jsmul (parseInt restriction) 100
      in if indexOf CHR ''+'' restriction \<noteq> -1 then w\<lparr>altitudeMinimum := altitude\<rparr>
         else if indexOf CHR ''-'' restriction \<noteq> -1 then w\<lparr>altitudeMaximum := altitude\<rparr>
         else w\<lparr>altitudeMaximum := altitude, altitudeMinimum := altitude\<rparr>)"

definition applySpeedRestriction :: "string \<Rightarrow> ('p, 'n) WaypointModel \<Rightarrow> ('p, 'n) WaypointModel" where
  "applySpeedRestriction restriction w =
     (let speed = parseInt restriction
      in if indexOf CHR ''+'' restriction \<noteq> -1 then w\<lparr>speedMinimum := speed\<rparr>
         else if indexOf CHR ''-'' restriction \<noteq> -1 then w\<lparr>speedMaximum := speed\<rparr>
         else w\<lparr>speedMaximum := speed, speedMinimum := speed\<rparr>)"

text \<open>The loop of \<open>_applyRestrictions\<close> over the pieces of the restriction string.
  \<open>restriction[0]\<close> of an empty piece is \<open>undefined\<close>, which is neither prefix.\<close>

fun applyRestrictionCollection ::
  "string list \<Rightarrow> ('p, 'n) WaypointModel \<Rightarrow> error + ('p, 'n) WaypointModel" where
  "applyRestrictionCollection [] w = Inr w"
| "applyRestrictionCollection (restriction # rest) w =
     (case restriction of
        [] \<Rightarrow> Inl (InvalidRestrictionPrefix None)
      | c # r \<Rightarrow>
          if c = CHR ''A'' then applyRestrictionCollection rest (applyAltitudeRestriction r w)
          else if c = CHR ''S'' then applyRestrictionCollection rest (applySpeedRestriction r w)
          else Inl (InvalidRestrictionPrefix (Some c)))"

definition applyRestrictions :: "string \<Rightarrow> ('p, 'n) WaypointModel \<Rightarrow> error + ('p, 'n) WaypointModel" where
  "applyRestrictions restrictions w =
     (if restrictions = [] then Inr w
      else applyRestrictionCollection (split CHR ''|'' restrictions) w)"

subsection \<open>Position, lifecycle\<close>

text \<open>\<open>FixCollection.getPositionModelForFixName\<close> is not among the sources: it is the
  parameter \<open>getPosition\<close>, answering \<open>None\<close> (null) for a name it does not know. The test is
  \<open>fixPosition === null\<close> in \<open>WaypointModel.js\<close> and \<open>!fixPosition\<close> in the later
  revision; both select the same branch on a position model or null.\<close>

definition initializePosition ::
  "(string \<Rightarrow> 'p option) \<Rightarrow> ('p, 'n) WaypointModel \<Rightarrow> error + ('p, 'n) WaypointModel" where
  "initializePosition getPosition w =
     (if u_isVectorWaypoint w then Inr w
      else (case getPosition (u_name w) of
              None \<Rightarrow> Inl (UnknownFix (u_name w))
            | Some fixPosition \<Rightarrow> Inr (w\<lparr>u_positionModel := Some fixPosition\<rparr>)))"

text \<open>\<open>init\<close>: an exception leaves the method at once; the model then answers the
  error and drops the half-initialised object. On a value that is neither a string nor
  an array, \<open>fixName.replace\<close> is not a function (\<open>NotAString\<close>).\<close>

definition init ::
  "(string \<Rightarrow> 'p option) \<Rightarrow> jsdata \<Rightarrow> ('p, 'n) WaypointModel \<Rightarrow> error + ('p, 'n) WaypointModel" where
  "init getPosition data w =
     (case (case data of
              JString s \<Rightarrow> Inr (s, [])
            | JArray [a, b] \<Rightarrow> Inr (a, b)
            | JArray _ \<Rightarrow> Inl InvalidRestrictedFix
            | JOther \<Rightarrow> Inl NotAString) of
        Inl e \<Rightarrow> Inl e
      | Inr (fixName, restrictions) \<Rightarrow>
          (case applyRestrictions restrictions
                  (initSpecialWaypoint fixName
                     (w\<lparr>u_name := replaceFirst CHR ''^'' (replaceFirst CHR ''@'' fixName)\<rparr>)) of
             Inl e \<Rightarrow> Inl e
           | Inr w' \<Rightarrow> initializePosition getPosition w'))"

definition legacy_init ::
  "(string \<Rightarrow> 'p option) \<Rightarrow> jsdata \<Rightarrow> ('p, 'n) WaypointModel \<Rightarrow> error + ('p, 'n) WaypointModel" where
  "legacy_init getPosition data w =
     (case (case data of
              JString s \<Rightarrow> Inr (s, [])
            | JArray [a, b] \<Rightarrow> Inr (a, b)
            | JArray _ \<Rightarrow> Inl InvalidRestrictedFix
            | JOther \<Rightarrow> Inl NotAString) of
        Inl e \<Rightarrow> Inl e
      | Inr (fixName, restrictions) \<Rightarrow>
          (case applyRestrictions restrictions
                  (legacy_initSpecialWaypoint fixName
                     (w\<lparr>u_name := replaceFirst CHR ''^'' (replaceFirst CHR ''@'' fixName)\<rparr>)) of
             Inl e \<Rightarrow> Inl e
           | Inr w' \<Rightarrow> initializePosition getPosition w'))"

text \<open>\<open>DEFAULT_HOLD_PARAMETERS\<close> (of \<open>waypointConstants\<close>, not among the sources) is the
  parameter \<open>dflt\<close>; \<open>Object.assign({}, DEFAULT_HOLD_PARAMETERS)\<close> is a copy of it.\<close>

definition reset :: "'n holdParameters \<Rightarrow> ('p, 'n) WaypointModel \<Rightarrow> ('p, 'n) WaypointModel" where
  "reset dflt w =
     w\<lparr>altitudeMaximum := Num (-1), altitudeMinimum := Num (-1),
       speedMaximum := Num (-1), speedMinimum := Num (-1),
       u_holdParameters := Some dflt,
       u_isFlyOverWaypoint := False, u_isHoldWaypoint := False, u_isVectorWaypoint := False,
       u_name := [], u_positionModel := None\<rparr>"

definition legacy_reset :: "('p, 'n) WaypointModel \<Rightarrow> ('p, 'n) WaypointModel" where
  "legacy_reset w =
     w\<lparr>altitudeMaximum := Num (-1), altitudeMinimum := Num (-1),
       speedMaximum := Num (-1), speedMinimum := Num (-1),
       u_holdParameters := None,
       u_isFlyOverWaypoint := False, u_isHoldWaypoint := False, u_isVectorWaypoint := False,
       u_name := [], u_positionModel := None\<rparr>"

text \<open>The constructor: the type test, the field initialisers, then \<open>init\<close>.\<close>

definition create ::
  "(string \<Rightarrow> 'p option) \<Rightarrow> 'n holdParameters \<Rightarrow> jsdata \<Rightarrow> error + ('p, 'n) WaypointModel" where
  "create getPosition dflt data =
     (case data of
        JOther \<Rightarrow> Inl InvalidData
      | _ \<Rightarrow>
          init getPosition data
            \<lparr>altitudeMaximum = Num (-1), altitudeMinimum = Num (-1),
             speedMaximum = Num (-1), speedMinimum = Num (-1),
             u_holdParameters = Some dflt,
             u_isFlyOverWaypoint = False, u_isHoldWaypoint = False,
             u_isVectorWaypoint = False, u_name = [], u_positionModel = None\<rparr>)"

definition legacy_create ::
  "(string \<Rightarrow> 'p option) \<Rightarrow> jsdata \<Rightarrow> error + ('p, 'n) WaypointModel" where
  "legacy_create getPosition data =
     (case data of
        JOther \<Rightarrow> Inl InvalidData
      | _ \<Rightarrow>
          legacy_init getPosition data
            \<lparr>altitudeMaximum = Num (-1), altitudeMinimum = Num (-1),
             speedMaximum = Num (-1), speedMinimum = Num (-1),
             u_holdParameters = None,
             u_isFlyOverWaypoint = False, u_isHoldWaypoint = False,
             u_isVectorWaypoint = False, u_name = [], u_positionModel = None\<rparr>)"

subsection \<open>Public methods\<close>

text \<open>The argument of the bearing and distance methods: a \<open>WaypointModel\<close> instance or
  any other value (\<open>instanceof\<close> decides).\<close>

datatype ('p, 'n) jsarg = ArgWaypoint "('p, 'n) WaypointModel" | ArgOther

definition ensureNonVectorWaypointsForThisAndWaypoint ::
  "('p, 'n) WaypointModel \<Rightarrow> ('p, 'n) jsarg \<Rightarrow> error + ('p, 'n) WaypointModel" where
  "ensureNonVectorWaypointsForThisAndWaypoint w x =
     (case x of
        ArgOther \<Rightarrow> Inl NotAWaypointModel
      | ArgWaypoint waypointModel \<Rightarrow>
          if u_isVectorWaypoint w \<or> isVectorWaypoint waypointModel then Inl VectorWaypoint
          else Inr waypointModel)"

text \<open>\<open>bearingToPosition\<close> and \<open>distanceToPosition\<close> are methods of the position model
  (not among the sources): parameters, which may raise. Calling a method on a
  \<open>_positionModel\<close> that is null raises (\<open>NullDereference\<close>).\<close>

definition calculateBearingToWaypoint ::
  "('p \<Rightarrow> 'p option \<Rightarrow> error + 'b) \<Rightarrow> ('p, 'n) WaypointModel \<Rightarrow> ('p, 'n) jsarg \<Rightarrow> error + 'b" where
  "calculateBearingToWaypoint bearingToPosition w x =
     (case ensureNonVectorWaypointsForThisAndWaypoint w x of
        Inl e \<Rightarrow> Inl e
      | Inr waypointModel \<Rightarrow>
          (case u_positionModel w of
             None \<Rightarrow> Inl NullDereference
           | Some p \<Rightarrow> bearingToPosition p (positionModel waypointModel)))"

definition calculateDistanceToWaypoint ::
  "('p \<Rightarrow> 'p option \<Rightarrow> error + 'b) \<Rightarrow> ('p, 'n) WaypointModel \<Rightarrow> ('p, 'n) jsarg \<Rightarrow> error + 'b" where
  "calculateDistanceToWaypoint distanceToPosition w x =
     (case ensureNonVectorWaypointsForThisAndWaypoint w x of
        Inl e \<Rightarrow> Inl e
      | Inr waypointModel \<Rightarrow>
          (case u_positionModel w of
             None \<Rightarrow> Inl NullDereference
           | Some p \<Rightarrow> distanceToPosition p (positionModel waypointModel)))"

text \<open>The methods of \<open>WaypointModel.js\<close> with the same names: the result is
  \<open>undefined\<close> (bearing) or the number 0 (distance) where the later revision raises.\<close>

datatype 'b lenient = Undefined | Zero | Computed 'b

definition legacy_calculateBearingToWaypoint ::
  "('p \<Rightarrow> 'p option \<Rightarrow> error + 'b) \<Rightarrow> ('p, 'n) WaypointModel \<Rightarrow> ('p, 'n) jsarg
     \<Rightarrow> error + 'b lenient" where
  "legacy_calculateBearingToWaypoint bearingToPosition w x =
     (case x of
        ArgOther \<Rightarrow> Inr Undefined
      | ArgWaypoint waypointModel \<Rightarrow>
          if u_isVectorWaypoint w \<or> isVectorWaypoint waypointModel then Inr Undefined
          else (case u_positionModel w of
                  None \<Rightarrow> Inl NullDereference
                | Some p \<Rightarrow>
                    (case bearingToPosition p (positionModel waypointModel) of
                       Inl e \<Rightarrow> Inl e
                     | Inr b \<Rightarrow> Inr (Computed b))))"

definition legacy_calculateDistanceToWaypoint ::
  "('p \<Rightarrow> 'p option \<Rightarrow> error + 'b) \<Rightarrow> ('p, 'n) WaypointModel \<Rightarrow> ('p, 'n) jsarg
     \<Rightarrow> error + 'b lenient" where
  "legacy_calculateDistanceToWaypoint distanceToPosition w x =
     (case x of
        ArgOther \<Rightarrow> Inr Zero
      | ArgWaypoint waypointModel \<Rightarrow>
          if u_isVectorWaypoint w \<or> isVectorWaypoint waypointModel then Inr Zero
          else (case u_positionModel w of
                  None \<Rightarrow> Inl NullDereference
                | Some p \<Rightarrow>
                    (case distanceToPosition p (positionModel waypointModel) of
                       Inl e \<Rightarrow> Inl e
                     | Inr b \<Rightarrow> Inr (Computed b))))"

text \<open>\<open>getVector\<close>: \<open>degreesToRadians\<close> (of \<open>unitConverters\<close>, not among the sources, and
  floating point) is a parameter; \<open>None\<close> is the bare \<open>return\<close>.\<close>

definition getVector :: "(jsnum \<Rightarrow> 'r) \<Rightarrow> ('p, 'n) WaypointModel \<Rightarrow> 'r option" where
  "getVector degreesToRadians w =
     (if \<not> u_isVectorWaypoint w then None
      else (let fixNameWithOutPoundSign = replaceFirst CHR ''#'' (u_name w);
                headingInDegrees = parseInt fixNameWithOutPoundSign
            in Some (degreesToRadians headingInDegrees)))"

definition hasMaximumAltitudeBelow :: "('p, 'n) WaypointModel \<Rightarrow> int \<Rightarrow> bool" where
  "hasMaximumAltitudeBelow w altitude =
     (altitudeMaximum w \<noteq> INVALID_NUMBER \<and>
      (case altitudeMaximum w of NaN \<Rightarrow> False | Num m \<Rightarrow> m < altitude))"

definition hasMinimumAltitudeAbove :: "('p, 'n) WaypointModel \<Rightarrow> int \<Rightarrow> bool" where
  "hasMinimumAltitudeAbove w altitude =
     (altitudeMinimum w \<noteq> INVALID_NUMBER \<and>
      (case altitudeMinimum w of NaN \<Rightarrow> False | Num m \<Rightarrow> m > altitude))"

section \<open>NavigationLibrary\<close>

text \<open>
  The class follows \<open>WaypointModel\<close> in the file \<open>WaypointModel.js\<close>. A plain object used
  as a keyed collection is the list of its own entries in insertion order, which
  \<open>_forEach\<close> and \<open>_map\<close> follow (keys that are array indices would come first; fix,
  airway and procedure names are not). \<open>key in object\<close> also holds for the
  properties every object inherits from \<open>Object.prototype\<close>.
\<close>

definition objectPrototypeKeys :: "string list" where
  "objectPrototypeKeys =
     [''constructor'', ''hasOwnProperty'', ''isPrototypeOf'', ''propertyIsEnumerable'',
      ''toLocaleString'', ''toString'', ''valueOf'', ''__proto__'', ''__defineGetter__'',
      ''__defineSetter__'', ''__lookupGetter__'', ''__lookupSetter__'']"

definition js_in :: "string \<Rightarrow> (string \<times> 'v) list \<Rightarrow> bool" where
  "js_in k obj = (k \<in> set (map fst obj) \<or> k \<in> set objectPrototypeKeys)"

text \<open>\<open>object[key]\<close>: the own entry, else the inherited property, else \<open>undefined\<close>.\<close>

datatype 'v property = Own 'v | Inherited | Absent

definition js_get :: "(string \<times> 'v) list \<Rightarrow> string \<Rightarrow> 'v property" where
  "js_get obj k =
     (case map_of obj k of
        Some v \<Rightarrow> Own v
      | None \<Rightarrow> if k \<in> set objectPrototypeKeys then Inherited else Absent)"

datatype procedureType = SID | STAR

record ('a, 'p, 'r) NavigationLibrary =
  u_airwayCollection :: "(string \<times> 'a) list"
  u_procedureCollection :: "(string \<times> 'p) list"
  u_referencePosition :: "'r option"

text \<open>The fields of the airport descriptor carry the prefix \<open>json\<close>; a mapping is the
  list of its entries, as above.\<close>

record ('pos, 'mn, 'fd, 'pd) airportJson =
  json_position :: 'pos
  json_magnetic_north :: 'mn
  json_fixes :: 'fd
  json_airways :: "(string \<times> string list) list"
  json_sids :: "(string \<times> 'pd) list"
  json_stars :: "(string \<times> 'pd) list"

text \<open>
  The classes the library builds on are not among the sources; what the library calls
  of them is one record of parameters. Constructors and \<open>FixCollection.addItems\<close> may
  raise. \<open>FixCollection\<close> is a module-wide object: its state (type \<open>'fc\<close>) is passed
  along with the library. \<open>newStaticPositionModel\<close> takes \<open>position\<close> and
  \<open>magnetic_north\<close> (the conversion to radians is its business here).
  \<open>fixNameCollection\<close> and \<open>procedure_getAllFixNamesInUse\<close> answer an array of names,
  or \<open>None\<close> for a value that is not an array.
\<close>

record ('pos, 'mn, 'fd, 'pd, 'r, 'fc, 'fix, 'rel, 'a, 'p) collaborators =
  newStaticPositionModel :: "'pos \<Rightarrow> 'mn \<Rightarrow> error + 'r"
  fc_addItems :: "'fd \<Rightarrow> 'r option \<Rightarrow> 'fc \<Rightarrow> error + 'fc"
  fc_removeItems :: "'fc \<Rightarrow> 'fc"
  fc_findFixByName :: "'fc \<Rightarrow> string \<Rightarrow> 'fix option"
  fc_getFixRelativePosition :: "'fc \<Rightarrow> string \<Rightarrow> 'rel"
  newAirwayModel :: "'fc \<Rightarrow> string \<Rightarrow> string list \<Rightarrow> error + 'a"
  fixNameCollection :: "'a \<Rightarrow> string list option"
  newProcedureModel :: "procedureType \<Rightarrow> 'pd \<Rightarrow> error + 'p"
  procedure_procedureType :: "'p \<Rightarrow> procedureType"
  procedure_getAllFixNamesInUse :: "'p \<Rightarrow> string list option"

definition NavigationLibrary_new :: "('a, 'p, 'r) NavigationLibrary" where
  "NavigationLibrary_new =
     \<lparr>u_airwayCollection = [], u_procedureCollection = [], u_referencePosition = None\<rparr>"

definition hasSids ::
  "('pos, 'mn, 'fd, 'pd, 'r, 'fc, 'fix, 'rel, 'a, 'p) collaborators
     \<Rightarrow> ('a, 'p, 'r) NavigationLibrary \<Rightarrow> bool" where
  "hasSids ext lib =
     (let sidProcedureModels =
            filter (\<lambda>procedure. procedure_procedureType ext procedure = SID)
              (map snd (u_procedureCollection lib))
      in length sidProcedureModels > 0)"

definition hasStars ::
  "('pos, 'mn, 'fd, 'pd, 'r, 'fc, 'fix, 'rel, 'a, 'p) collaborators
     \<Rightarrow> ('a, 'p, 'r) NavigationLibrary \<Rightarrow> bool" where
  "hasStars ext lib =
     (let starProcedureModels =
            filter (\<lambda>procedure. procedure_procedureType ext procedure = STAR)
              (map snd (u_procedureCollection lib))
      in length starProcedureModels > 0)"

subsection \<open>Loading\<close>

text \<open>The body of the \<open>_forEach\<close> over the airways, entry by entry; \<open>collection\<close> is
  \<open>this._airwayCollection\<close> as it grows.\<close>

fun forEachAirway ::
  "(string \<Rightarrow> string list \<Rightarrow> error + 'a) \<Rightarrow> (string \<times> string list) list
     \<Rightarrow> (string \<times> 'a) list \<Rightarrow> error + (string \<times> 'a) list" where
  "forEachAirway new [] collection = Inr collection"
| "forEachAirway new ((airwayName, fixNames) # rest) collection =
     (if js_in airwayName collection then Inl (MultipleAirway airwayName)
      else (case new airwayName fixNames of
              Inl e \<Rightarrow> Inl e
            | Inr airwayModel \<Rightarrow>
                forEachAirway new rest (collection @ [(airwayName, airwayModel)])))"

definition initializeAirwayCollection ::
  "('pos, 'mn, 'fd, 'pd, 'r, 'fc, 'fix, 'rel, 'a, 'p) collaborators \<Rightarrow> 'fc
     \<Rightarrow> (string \<times> string list) list
     \<Rightarrow> ('a, 'p, 'r) NavigationLibrary \<Rightarrow> error + ('a, 'p, 'r) NavigationLibrary" where
  "initializeAirwayCollection ext fc airways lib =
     (case forEachAirway (newAirwayModel ext fc) airways (u_airwayCollection lib) of
        Inl e \<Rightarrow> Inl e
      | Inr collection \<Rightarrow> Inr (lib\<lparr>u_airwayCollection := collection\<rparr>))"

text \<open>The body of either \<open>_forEach\<close> of \<open>_initializeProcedureCollection\<close>; \<open>collection\<close>
  is \<open>this._procedureCollection\<close>, shared by the two loops.\<close>

fun forEachProcedure ::
  "('pd \<Rightarrow> error + 'p) \<Rightarrow> (string \<times> 'pd) list
     \<Rightarrow> (string \<times> 'p) list \<Rightarrow> error + (string \<times> 'p) list" where
  "forEachProcedure new [] collection = Inr collection"
| "forEachProcedure new ((procedureId, procedure) # rest) collection =
     (if js_in procedureId collection then Inl (MultipleProcedure procedureId)
      else (case new procedure of
              Inl e \<Rightarrow> Inl e
            | Inr procedureModel \<Rightarrow>
                forEachProcedure new rest (collection @ [(procedureId, procedureModel)])))"

definition initializeProcedureCollection ::
  "('pos, 'mn, 'fd, 'pd, 'r, 'fc, 'fix, 'rel, 'a, 'p) collaborators
     \<Rightarrow> (string \<times> 'pd) list \<Rightarrow> (string \<times> 'pd) list
     \<Rightarrow> ('a, 'p, 'r) NavigationLibrary \<Rightarrow> error + ('a, 'p, 'r) NavigationLibrary" where
  "initializeProcedureCollection ext sids stars lib =
     (case forEachProcedure (newProcedureModel ext SID) sids (u_procedureCollection lib) of
        Inl e \<Rightarrow> Inl e
      | Inr collection \<Rightarrow>
          (case forEachProcedure (newProcedureModel ext STAR) stars collection of
             Inl e \<Rightarrow> Inl e
           | Inr collection' \<Rightarrow> Inr (lib\<lparr>u_procedureCollection := collection'\<rparr>)))"

definition initializeReferencePosition ::
  "('pos, 'mn, 'fd, 'pd, 'r, 'fc, 'fix, 'rel, 'a, 'p) collaborators
     \<Rightarrow> ('pos, 'mn, 'fd, 'pd) airportJson
     \<Rightarrow> ('a, 'p, 'r) NavigationLibrary \<Rightarrow> error + ('a, 'p, 'r) NavigationLibrary" where
  "initializeReferencePosition ext airportJson lib =
     (case newStaticPositionModel ext (json_position airportJson) (json_magnetic_north airportJson) of
        Inl e \<Rightarrow> Inl e
      | Inr r \<Rightarrow> Inr (lib\<lparr>u_referencePosition := Some r\<rparr>))"

definition initializeFixCollection ::
  "('pos, 'mn, 'fd, 'pd, 'r, 'fc, 'fix, 'rel, 'a, 'p) collaborators \<Rightarrow> 'fd
     \<Rightarrow> ('a, 'p, 'r) NavigationLibrary \<Rightarrow> 'fc \<Rightarrow> error + 'fc" where
  "initializeFixCollection ext fixes lib fc = fc_addItems ext fixes (u_referencePosition lib) fc"

subsection \<open>The warning for undefined fixes\<close>

text \<open>\<open>_flatten\<close> (one level) splices arrays and keeps any other value; \<open>_uniq\<close> keeps
  the first occurrence of each value; \<open>_without(..., undefined)\<close> drops \<open>undefined\<close>;
  \<open>sort()\<close> without a comparator orders strings by their code units.\<close>

definition flatten :: "string list option list \<Rightarrow> string option list" where
  "flatten groups =
     concat (map (\<lambda>g. case g of None \<Rightarrow> [None] | Some names \<Rightarrow> map Some names) groups)"

fun uniqFrom :: "'v list \<Rightarrow> 'v list \<Rightarrow> 'v list" where
  "uniqFrom seen [] = []"
| "uniqFrom seen (x # xs) =
     (if x \<in> set seen then uniqFrom seen xs else x # uniqFrom (x # seen) xs)"

definition uniq :: "'v list \<Rightarrow> 'v list" where
  "uniq xs = uniqFrom [] xs"

definition withoutUndefined :: "string option list \<Rightarrow> string list" where
  "withoutUndefined xs = concat (map (\<lambda>x. case x of None \<Rightarrow> [] | Some n \<Rightarrow> [n]) xs)"

definition getAllFixNamesInUse ::
  "('pos, 'mn, 'fd, 'pd, 'r, 'fc, 'fix, 'rel, 'a, 'p) collaborators
     \<Rightarrow> ('a, 'p, 'r) NavigationLibrary \<Rightarrow> string list" where
  "getAllFixNamesInUse ext lib =
     (let airwayFixes = map (\<lambda>airwayModel. fixNameCollection ext airwayModel)
                          (map snd (u_airwayCollection lib));
          fixGroups = map (\<lambda>procedureModel. procedure_getAllFixNamesInUse ext procedureModel)
                        (map snd (u_procedureCollection lib));
          uniqueFixNames = withoutUndefined (uniq (flatten (airwayFixes @ fixGroups)))
      in sort uniqueFixNames)"

text \<open>The result is the argument of \<open>console.warn\<close>, or \<open>None\<close> when the method returns
  without a warning.\<close>

definition showConsoleWarningForUndefinedFixes ::
  "('pos, 'mn, 'fd, 'pd, 'r, 'fc, 'fix, 'rel, 'a, 'p) collaborators \<Rightarrow> 'fc
     \<Rightarrow> ('a, 'p, 'r) NavigationLibrary \<Rightarrow> string list option" where
  "showConsoleWarningForUndefinedFixes ext fc lib =
     (let allFixNames = getAllFixNamesInUse ext lib;
          missingFixes = filter (\<lambda>fix. fc_findFixByName ext fc fix = None) allFixNames
      in if length missingFixes < 1 then None else Some missingFixes)"

subsection \<open>Lifecycle and queries\<close>

text \<open>\<open>init\<close> of the library: the state is the library and the fix collection; the
  result adds what was written to the console. An exception ends the call.\<close>

definition NavigationLibrary_init ::
  "('pos, 'mn, 'fd, 'pd, 'r, 'fc, 'fix, 'rel, 'a, 'p) collaborators
     \<Rightarrow> ('pos, 'mn, 'fd, 'pd) airportJson
     \<Rightarrow> ('a, 'p, 'r) NavigationLibrary \<times> 'fc
     \<Rightarrow> error + (('a, 'p, 'r) NavigationLibrary \<times> 'fc \<times> string list option)" where
  "NavigationLibrary_init ext airportJson state =
     (case initializeReferencePosition ext airportJson (fst state) of
        Inl e \<Rightarrow> Inl e
      | Inr lib1 \<Rightarrow>
     (case initializeFixCollection ext (json_fixes airportJson) lib1 (snd state) of
        Inl e \<Rightarrow> Inl e
      | Inr fc1 \<Rightarrow>
     (case initializeAirwayCollection ext fc1 (json_airways airportJson) lib1 of
        Inl e \<Rightarrow> Inl e
      | Inr lib2 \<Rightarrow>
     (case initializeProcedureCollection ext (json_sids airportJson) (json_stars airportJson) lib2 of
        Inl e \<Rightarrow> Inl e
      | Inr lib3 \<Rightarrow>
          Inr (lib3, fc1, showConsoleWarningForUndefinedFixes ext fc1 lib3)))))"

definition NavigationLibrary_reset ::
  "('pos, 'mn, 'fd, 'pd, 'r, 'fc, 'fix, 'rel, 'a, 'p) collaborators
     \<Rightarrow> ('a, 'p, 'r) NavigationLibrary \<times> 'fc \<Rightarrow> ('a, 'p, 'r) NavigationLibrary \<times> 'fc" where
  "NavigationLibrary_reset ext state =
     ((fst state)\<lparr>u_airwayCollection := [], u_procedureCollection := [],
                  u_referencePosition := None\<rparr>,
      fc_removeItems ext (snd state))"

definition findFixByName ::
  "('pos, 'mn, 'fd, 'pd, 'r, 'fc, 'fix, 'rel, 'a, 'p) collaborators \<Rightarrow> 'fc \<Rightarrow> string
     \<Rightarrow> 'fix option" where
  "findFixByName ext fc fixName = fc_findFixByName ext fc fixName"

definition hasAirway :: "('a, 'p, 'r) NavigationLibrary \<Rightarrow> string \<Rightarrow> bool" where
  "hasAirway lib airwayId = js_in airwayId (u_airwayCollection lib)"

definition getAirway :: "('a, 'p, 'r) NavigationLibrary \<Rightarrow> string \<Rightarrow> 'a property option" where
  "getAirway lib airwayId =
     (if \<not> hasAirway lib airwayId then None
      else Some (js_get (u_airwayCollection lib) airwayId))"

definition hasProcedure :: "('a, 'p, 'r) NavigationLibrary \<Rightarrow> string \<Rightarrow> bool" where
  "hasProcedure lib procedureId = js_in procedureId (u_procedureCollection lib)"

definition getProcedure :: "('a, 'p, 'r) NavigationLibrary \<Rightarrow> string \<Rightarrow> 'p property option" where
  "getProcedure lib procedureId =
     (if \<not> hasProcedure lib procedureId then None
      else Some (js_get (u_procedureCollection lib) procedureId))"

definition getFixRelativePosition ::
  "('pos, 'mn, 'fd, 'pd, 'r, 'fc, 'fix, 'rel, 'a, 'p) collaborators \<Rightarrow> 'fc \<Rightarrow> string
     \<Rightarrow> 'rel" where
  "getFixRelativePosition ext fc fixName = fc_getFixRelativePosition ext fc fixName"

definition hasFixName ::
  "('pos, 'mn, 'fd, 'pd, 'r, 'fc, 'fix, 'rel, 'a, 'p) collaborators \<Rightarrow> 'fc \<Rightarrow> string
     \<Rightarrow> bool" where
  "hasFixName ext fc fixName =
     (let fixOrNull = findFixByName ext fc fixName in fixOrNull \<noteq> None)"

section \<open>The wording of the claims\<close>

text \<open>
  Definitions that follow the words of the specification, to be compared with the
  embedded code. \<open>restrictionTokens\<close> are the pieces of a restriction string (none for
  the empty string); \<open>restrictionValue\<close> is the number a piece stands for;
  \<open>setsMinimum k\<close> and \<open>setsMaximum k\<close> say whether a piece of kind \<open>k\<close> (\<open>A\<close> or \<open>S\<close>)
  sets the bound; \<open>boundAfter\<close> is the bound after all pieces: the value of the last
  piece that sets it, else what it was. \<open>isVectorToken\<close> is a token with \<open>#\<close> and no
  marker of earlier precedence; \<open>strippedName\<close> is the stored name;
  \<open>statedVectorDegrees\<close> reads "the digits after \<open>#\<close>".
\<close>

definition restrictionValue :: "string \<Rightarrow> jsnum" where
  "restrictionValue t =
     (case t of
        [] \<Rightarrow> NaN
      | c # r \<Rightarrow> if c = CHR ''A'' then jsmul (parseInt r) 100 else parseInt r)"

definition setsMinimum :: "char \<Rightarrow> string \<Rightarrow> bool" where
  "setsMinimum k t =
     (case t of
        [] \<Rightarrow> False
      | c # r \<Rightarrow> c = k \<and> (CHR ''+'' \<in> set r \<or> CHR ''-'' \<notin> set r))"

definition setsMaximum :: "char \<Rightarrow> string \<Rightarrow> bool" where
  "setsMaximum k t =
     (case t of
        [] \<Rightarrow> False
      | c # r \<Rightarrow> c = k \<and> CHR ''+'' \<notin> set r)"

definition boundAfter :: "(string \<Rightarrow> bool) \<Rightarrow> jsnum \<Rightarrow> string list \<Rightarrow> jsnum" where
  "boundAfter sets b ts =
     (case filter sets ts of [] \<Rightarrow> b | u # us \<Rightarrow> restrictionValue (last (u # us)))"

definition restrictionTokens :: "string \<Rightarrow> string list" where
  "restrictionTokens rs = (if rs = [] then [] else split CHR ''|'' rs)"

definition wellFormedToken :: "string \<Rightarrow> bool" where
  "wellFormedToken t = (case t of [] \<Rightarrow> False | c # r \<Rightarrow> c = CHR ''A'' \<or> c = CHR ''S'')"

definition isVectorToken :: "string \<Rightarrow> bool" where
  "isVectorToken t = (CHR ''^'' \<notin> set t \<and> CHR ''@'' \<notin> set t \<and> CHR ''#'' \<in> set t)"

definition strippedName :: "string \<Rightarrow> string" where
  "strippedName t = remove1 CHR ''^'' (remove1 CHR ''@'' t)"

definition statedVectorDegrees :: "string \<Rightarrow> jsnum" where
  "statedVectorDegrees t = parseInt (tl (dropWhile ((\<noteq>) CHR ''#'') t))"


definition sampleCollaborators ::
  "(unit, unit, (string \<times> nat) list, string list, unit, (string \<times> nat) list, nat, nat option,
    string list, procedureType \<times> string list) collaborators" where
  "sampleCollaborators =
     \<lparr>newStaticPositionModel = (\<lambda>p m. Inr ()),
      fc_addItems = (\<lambda>fixes r fc. if fc \<noteq> [] then Inl (External ''FixCollection'') else Inr fixes),
      fc_removeItems = (\<lambda>fc. []),
      fc_findFixByName = map_of,
      fc_getFixRelativePosition = map_of,
      newAirwayModel = (\<lambda>fc n names. Inr names),
      fixNameCollection = Some,
      newProcedureModel = (\<lambda>t d. Inr (t, d)),
      procedure_procedureType = fst,
      procedure_getAllFixNamesInUse = (\<lambda>p. Some (snd p))\<rparr>"

definition sampleAirport :: "(unit, unit, (string \<times> nat) list, string list) airportJson" where
  "sampleAirport =
     \<lparr>json_position = (), json_magnetic_north = (),
      json_fixes = [(''AAA'', 1), (''BBB'', 2)],
      json_airways = [(''V1'', [''BBB'', ''ZZZ'', ''AAA'']), (''V2'', [''ZZZ'', ''MMM''])],
      json_sids = [(''S1'', [''MMM'', ''AAA''])],
      json_stars = [(''T1'', [''BBB''])]\<rparr>"

section \<open>Lemmas on the waypoint model\<close>

lemma indexOf_ge: "- 1 \<le> indexOf c s"
  by (induction s) (auto simp: Let_def)

lemma indexOf_found: "(indexOf c s \<noteq> - 1) = (c \<in> set s)"
proof (induction s)
  case Nil
  show ?case by simp
next
  case (Cons x xs)
  have "indexOf c xs + 1 \<noteq> - 1" using indexOf_ge [of c xs] by arith
  with Cons show ?case by (auto simp: Let_def)
qed

lemma replaceFirst_remove1: "replaceFirst c s = remove1 c s"
  by (induction s) auto

lemma boundAfter_Nil: "boundAfter sets b [] = b"
  by (simp add: boundAfter_def)

lemma boundAfter_Cons:
  "boundAfter sets b (t # ts) = boundAfter sets (if sets t then restrictionValue t else b) ts"
  by (cases "filter sets ts") (simp_all add: boundAfter_def)

lemma applyAltitudeRestriction_bounds:
  "altitudeMinimum (applyAltitudeRestriction r w) =
     (if setsMinimum CHR ''A'' (CHR ''A'' # r) then restrictionValue (CHR ''A'' # r) else altitudeMinimum w)"
  "altitudeMaximum (applyAltitudeRestriction r w) =
     (if setsMaximum CHR ''A'' (CHR ''A'' # r) then restrictionValue (CHR ''A'' # r) else altitudeMaximum w)"
  "speedMinimum (applyAltitudeRestriction r w) = speedMinimum w"
  "speedMaximum (applyAltitudeRestriction r w) = speedMaximum w"
  by (simp_all add: applyAltitudeRestriction_def setsMinimum_def setsMaximum_def
        restrictionValue_def indexOf_found Let_def)

lemma applySpeedRestriction_bounds:
  "speedMinimum (applySpeedRestriction r w) =
     (if setsMinimum CHR ''S'' (CHR ''S'' # r) then restrictionValue (CHR ''S'' # r) else speedMinimum w)"
  "speedMaximum (applySpeedRestriction r w) =
     (if setsMaximum CHR ''S'' (CHR ''S'' # r) then restrictionValue (CHR ''S'' # r) else speedMaximum w)"
  "altitudeMinimum (applySpeedRestriction r w) = altitudeMinimum w"
  "altitudeMaximum (applySpeedRestriction r w) = altitudeMaximum w"
  by (simp_all add: applySpeedRestriction_def setsMinimum_def setsMaximum_def
        restrictionValue_def indexOf_found Let_def)

lemma setsOther [simp]:
  "\<not> setsMinimum CHR ''A'' (CHR ''S'' # r)" "\<not> setsMaximum CHR ''A'' (CHR ''S'' # r)"
  "\<not> setsMinimum CHR ''S'' (CHR ''A'' # r)" "\<not> setsMaximum CHR ''S'' (CHR ''A'' # r)"
  by (simp_all add: setsMinimum_def setsMaximum_def)

lemma applyRestrictionCollection_bounds:
  "applyRestrictionCollection ts w = Inr w' \<Longrightarrow>
     altitudeMinimum w' = boundAfter (setsMinimum CHR ''A'') (altitudeMinimum w) ts \<and>
     altitudeMaximum w' = boundAfter (setsMaximum CHR ''A'') (altitudeMaximum w) ts \<and>
     speedMinimum w' = boundAfter (setsMinimum CHR ''S'') (speedMinimum w) ts \<and>
     speedMaximum w' = boundAfter (setsMaximum CHR ''S'') (speedMaximum w) ts"
proof (induction ts arbitrary: w)
  case Nil
  then show ?case by (simp add: boundAfter_Nil)
next
  case (Cons t ts)
  show ?case
  proof (cases t)
    case Nil
    with Cons.prems show ?thesis by simp
  next
    case (Cons c r)
    note t = Cons
    show ?thesis
    proof (cases "c = CHR ''A''")
      case True
      with t Cons.prems have "applyRestrictionCollection ts (applyAltitudeRestriction r w) = Inr w'"
        by simp
      from Cons.IH [OF this] show ?thesis
        unfolding t True boundAfter_Cons applyAltitudeRestriction_bounds by simp
    next
      case notA: False
      show ?thesis
      proof (cases "c = CHR ''S''")
        case True
        with t Cons.prems have "applyRestrictionCollection ts (applySpeedRestriction r w) = Inr w'"
          by simp
        from Cons.IH [OF this] show ?thesis
          unfolding t True boundAfter_Cons applySpeedRestriction_bounds by simp
      next
        case False
        with notA t Cons.prems show ?thesis by simp
      qed
    qed
  qed
qed

lemma applyRestriction_frame [simp]:
  "u_name (applyAltitudeRestriction r w) = u_name w"
  "u_isFlyOverWaypoint (applyAltitudeRestriction r w) = u_isFlyOverWaypoint w"
  "u_isHoldWaypoint (applyAltitudeRestriction r w) = u_isHoldWaypoint w"
  "u_isVectorWaypoint (applyAltitudeRestriction r w) = u_isVectorWaypoint w"
  "u_holdParameters (applyAltitudeRestriction r w) = u_holdParameters w"
  "u_positionModel (applyAltitudeRestriction r w) = u_positionModel w"
  "u_name (applySpeedRestriction r w) = u_name w"
  "u_isFlyOverWaypoint (applySpeedRestriction r w) = u_isFlyOverWaypoint w"
  "u_isHoldWaypoint (applySpeedRestriction r w) = u_isHoldWaypoint w"
  "u_isVectorWaypoint (applySpeedRestriction r w) = u_isVectorWaypoint w"
  "u_holdParameters (applySpeedRestriction r w) = u_holdParameters w"
  "u_positionModel (applySpeedRestriction r w) = u_positionModel w"
  by (simp_all add: applyAltitudeRestriction_def applySpeedRestriction_def Let_def)

lemma applyRestrictionCollection_frame:
  "applyRestrictionCollection ts w = Inr w' \<Longrightarrow>
     u_name w' = u_name w \<and> u_isFlyOverWaypoint w' = u_isFlyOverWaypoint w \<and>
     u_isHoldWaypoint w' = u_isHoldWaypoint w \<and> u_isVectorWaypoint w' = u_isVectorWaypoint w \<and>
     u_holdParameters w' = u_holdParameters w \<and> u_positionModel w' = u_positionModel w"
proof (induction ts arbitrary: w)
  case Nil
  then show ?case by simp
next
  case (Cons t ts)
  show ?case
  proof (cases t)
    case Nil
    with Cons.prems show ?thesis by simp
  next
    case (Cons c r)
    with Cons.prems Cons.IH [of "applyAltitudeRestriction r w"]
      Cons.IH [of "applySpeedRestriction r w"]
    show ?thesis by (simp split: if_splits)
  qed
qed

lemma applyRestrictionCollection_total:
  "(\<forall>t\<in>set ts. wellFormedToken t) = (\<exists>w'. applyRestrictionCollection ts w = Inr w')"
proof (induction ts arbitrary: w)
  case Nil
  show ?case by simp
next
  case (Cons t ts)
  show ?case
  proof (cases t)
    case Nil
    then show ?thesis by (simp add: wellFormedToken_def)
  next
    case (Cons c r)
    with Cons.IH [of "applyAltitudeRestriction r w"] Cons.IH [of "applySpeedRestriction r w"]
    show ?thesis by (simp add: wellFormedToken_def)
  qed
qed

lemma applyRestrictions_tokens:
  "applyRestrictions rs w = applyRestrictionCollection (restrictionTokens rs) w"
  by (simp add: applyRestrictions_def restrictionTokens_def)

lemma initSpecialWaypoint_fields:
  "u_isFlyOverWaypoint (initSpecialWaypoint t w) = (u_isFlyOverWaypoint w \<or> CHR ''^'' \<in> set t)"
  "u_isHoldWaypoint (initSpecialWaypoint t w) =
     (u_isHoldWaypoint w \<or> CHR ''^'' \<notin> set t \<and> CHR ''@'' \<in> set t)"
  "u_isVectorWaypoint (initSpecialWaypoint t w) = (u_isVectorWaypoint w \<or> isVectorToken t)"
  "u_name (initSpecialWaypoint t w) = u_name w"
  "u_positionModel (initSpecialWaypoint t w) = u_positionModel w"
  "altitudeMinimum (initSpecialWaypoint t w) = altitudeMinimum w"
  "altitudeMaximum (initSpecialWaypoint t w) = altitudeMaximum w"
  "speedMinimum (initSpecialWaypoint t w) = speedMinimum w"
  "speedMaximum (initSpecialWaypoint t w) = speedMaximum w"
  by (simp_all add: initSpecialWaypoint_def INVALID_INDEX_def indexOf_found isVectorToken_def
        initFlyOverWaypoint_def initHoldWaypoint_def initVectorWaypoint_def)

lemma legacy_initSpecialWaypoint_fields:
  "u_isFlyOverWaypoint (legacy_initSpecialWaypoint t w) = (u_isFlyOverWaypoint w \<or> CHR ''^'' \<in> set t)"
  "u_isHoldWaypoint (legacy_initSpecialWaypoint t w) =
     (u_isHoldWaypoint w \<or> CHR ''^'' \<notin> set t \<and> CHR ''@'' \<in> set t)"
  "u_isVectorWaypoint (legacy_initSpecialWaypoint t w) = (u_isVectorWaypoint w \<or> isVectorToken t)"
  "u_name (legacy_initSpecialWaypoint t w) = u_name w"
  "u_positionModel (legacy_initSpecialWaypoint t w) = u_positionModel w"
  "altitudeMinimum (legacy_initSpecialWaypoint t w) = altitudeMinimum w"
  "altitudeMaximum (legacy_initSpecialWaypoint t w) = altitudeMaximum w"
  "speedMinimum (legacy_initSpecialWaypoint t w) = speedMinimum w"
  "speedMaximum (legacy_initSpecialWaypoint t w) = speedMaximum w"
  by (simp_all add: legacy_initSpecialWaypoint_def INVALID_INDEX_def indexOf_found isVectorToken_def
        initFlyOverWaypoint_def legacy_initHoldWaypoint_def initVectorWaypoint_def)

text \<open>What a successful construction went through, in either revision.\<close>

lemma init_steps:
  assumes "init reg data w = Inr w'" and "data = JString t \<and> rs = [] \<or> data = JArray [t, rs]"
  shows "\<exists>w1. applyRestrictionCollection (restrictionTokens rs)
                 (initSpecialWaypoint t (w\<lparr>u_name := strippedName t\<rparr>)) = Inr w1 \<and>
              initializePosition reg w1 = Inr w'"
  using assms
  by (auto simp: init_def strippedName_def replaceFirst_remove1 applyRestrictions_tokens
      split: sum.splits)

lemma legacy_init_steps:
  assumes "legacy_init reg data w = Inr w'"
    and "data = JString t \<and> rs = [] \<or> data = JArray [t, rs]"
  shows "\<exists>w1. applyRestrictionCollection (restrictionTokens rs)
                 (legacy_initSpecialWaypoint t (w\<lparr>u_name := strippedName t\<rparr>)) = Inr w1 \<and>
              initializePosition reg w1 = Inr w'"
  using assms
  by (auto simp: legacy_init_def strippedName_def replaceFirst_remove1 applyRestrictions_tokens
      split: sum.splits)

lemma created_steps:
  assumes "create reg dflt data = Inr w \<or> legacy_create reg data = Inr w"
    and "data = JString t \<and> rs = [] \<or> data = JArray [t, rs]"
  shows "\<exists>w0 w1.
      u_name w0 = strippedName t \<and>
      u_isFlyOverWaypoint w0 = (CHR ''^'' \<in> set t) \<and>
      u_isHoldWaypoint w0 = (CHR ''^'' \<notin> set t \<and> CHR ''@'' \<in> set t) \<and>
      u_isVectorWaypoint w0 = isVectorToken t \<and>
      u_positionModel w0 = None \<and>
      altitudeMinimum w0 = Num (- 1) \<and> altitudeMaximum w0 = Num (- 1) \<and>
      speedMinimum w0 = Num (- 1) \<and> speedMaximum w0 = Num (- 1) \<and>
      applyRestrictionCollection (restrictionTokens rs) w0 = Inr w1 \<and>
      initializePosition reg w1 = Inr w"
  using assms(1)
proof
  let ?p = "\<lparr>altitudeMaximum = Num (- 1), altitudeMinimum = Num (- 1),
             speedMaximum = Num (- 1), speedMinimum = Num (- 1),
             u_holdParameters = Some dflt,
             u_isFlyOverWaypoint = False, u_isHoldWaypoint = False,
             u_isVectorWaypoint = False, u_name = [], u_positionModel = None\<rparr>"
  assume "create reg dflt data = Inr w"
  with assms(2) have "init reg data ?p = Inr w"
    by (auto simp: create_def)
  from init_steps [OF this assms(2)] obtain w1 where
    "applyRestrictionCollection (restrictionTokens rs)
       (initSpecialWaypoint t (?p\<lparr>u_name := strippedName t\<rparr>)) = Inr w1"
    "initializePosition reg w1 = Inr w"
    by blast
  then show ?thesis
    by (intro exI [of _ "initSpecialWaypoint t (?p\<lparr>u_name := strippedName t\<rparr>)"] exI [of _ w1])
       (simp add: initSpecialWaypoint_fields)
next
  let ?q = "\<lparr>altitudeMaximum = Num (- 1), altitudeMinimum = Num (- 1),
             speedMaximum = Num (- 1), speedMinimum = Num (- 1),
             u_holdParameters = None,
             u_isFlyOverWaypoint = False, u_isHoldWaypoint = False,
             u_isVectorWaypoint = False, u_name = [], u_positionModel = None\<rparr> :: ('a, 'b) WaypointModel"
  assume "legacy_create reg data = Inr w"
  with assms(2) have "legacy_init reg data ?q = Inr w"
    by (auto simp: legacy_create_def)
  from legacy_init_steps [OF this assms(2)] obtain w1 where
    "applyRestrictionCollection (restrictionTokens rs)
       (legacy_initSpecialWaypoint t (?q\<lparr>u_name := strippedName t\<rparr>)) = Inr w1"
    "initializePosition reg w1 = Inr w"
    by blast
  then show ?thesis
    by (intro exI [of _ "legacy_initSpecialWaypoint t (?q\<lparr>u_name := strippedName t\<rparr>)"] exI [of _ w1])
       (simp add: legacy_initSpecialWaypoint_fields)
qed

lemma initializePosition_Inr:
  "initializePosition reg w1 = Inr w \<Longrightarrow>
     (u_isVectorWaypoint w1 \<and> w = w1 \<or>
      \<not> u_isVectorWaypoint w1 \<and> (\<exists>p. reg (u_name w1) = Some p \<and> w = w1\<lparr>u_positionModel := Some p\<rparr>))"
  by (auto simp: initializePosition_def split: if_splits option.splits)

lemma created_fields:
  assumes "create reg dflt data = Inr w \<or> legacy_create reg data = Inr w"
    and "data = JString t \<and> rs = [] \<or> data = JArray [t, rs]"
  shows "u_name w = strippedName t"
    and "u_isFlyOverWaypoint w = (CHR ''^'' \<in> set t)"
    and "u_isHoldWaypoint w = (CHR ''^'' \<notin> set t \<and> CHR ''@'' \<in> set t)"
    and "u_isVectorWaypoint w = isVectorToken t"
    and "u_positionModel w = (if isVectorToken t then None else reg (strippedName t))"
    and "\<not> isVectorToken t \<Longrightarrow> reg (strippedName t) \<noteq> None"
    and "altitudeMinimum w = boundAfter (setsMinimum CHR ''A'') (Num (- 1)) (restrictionTokens rs)"
    and "altitudeMaximum w = boundAfter (setsMaximum CHR ''A'') (Num (- 1)) (restrictionTokens rs)"
    and "speedMinimum w = boundAfter (setsMinimum CHR ''S'') (Num (- 1)) (restrictionTokens rs)"
    and "speedMaximum w = boundAfter (setsMaximum CHR ''S'') (Num (- 1)) (restrictionTokens rs)"
    and "\<forall>tok\<in>set (restrictionTokens rs). wellFormedToken tok"
proof -
  from created_steps [OF assms] obtain w0 w1 where
    w0: "u_name w0 = strippedName t" "u_isFlyOverWaypoint w0 = (CHR ''^'' \<in> set t)"
      "u_isHoldWaypoint w0 = (CHR ''^'' \<notin> set t \<and> CHR ''@'' \<in> set t)"
      "u_isVectorWaypoint w0 = isVectorToken t" "u_positionModel w0 = None"
      "altitudeMinimum w0 = Num (- 1)" "altitudeMaximum w0 = Num (- 1)"
      "speedMinimum w0 = Num (- 1)" "speedMaximum w0 = Num (- 1)"
    and r: "applyRestrictionCollection (restrictionTokens rs) w0 = Inr w1"
    and p: "initializePosition reg w1 = Inr w"
    by blast
  note f = applyRestrictionCollection_frame [OF r]
  note b = applyRestrictionCollection_bounds [OF r]
  note i = initializePosition_Inr [OF p]
  from r show "\<forall>tok\<in>set (restrictionTokens rs). wellFormedToken tok"
    using applyRestrictionCollection_total [of "restrictionTokens rs" w0] by blast
  from i f w0 show "u_name w = strippedName t" by auto
  from i f w0 show "u_isFlyOverWaypoint w = (CHR ''^'' \<in> set t)" by auto
  from i f w0 show "u_isHoldWaypoint w = (CHR ''^'' \<notin> set t \<and> CHR ''@'' \<in> set t)" by auto
  from i f w0 show "u_isVectorWaypoint w = isVectorToken t" by auto
  from i f w0 show "u_positionModel w = (if isVectorToken t then None else reg (strippedName t))"
    by auto
  from i f w0 show "\<not> isVectorToken t \<Longrightarrow> reg (strippedName t) \<noteq> None" by auto
  from i b w0 show "altitudeMinimum w = boundAfter (setsMinimum CHR ''A'') (Num (- 1)) (restrictionTokens rs)"
    by auto
  from i b w0 show "altitudeMaximum w = boundAfter (setsMaximum CHR ''A'') (Num (- 1)) (restrictionTokens rs)"
    by auto
  from i b w0 show "speedMinimum w = boundAfter (setsMinimum CHR ''S'') (Num (- 1)) (restrictionTokens rs)"
    by auto
  from i b w0 show "speedMaximum w = boundAfter (setsMaximum CHR ''S'') (Num (- 1)) (restrictionTokens rs)"
    by auto
qed

text \<open>When a construction succeeds, in either revision.\<close>

lemma steps_succeed:
  assumes "\<forall>tok\<in>set (restrictionTokens rs). wellFormedToken tok"
    and "u_isVectorWaypoint w0 \<or> reg (u_name w0) \<noteq> None"
  shows "\<exists>w1 w. applyRestrictions rs w0 = Inr w1 \<and> initializePosition reg w1 = Inr w"
proof -
  from assms(1) obtain w1 where r: "applyRestrictionCollection (restrictionTokens rs) w0 = Inr w1"
    using applyRestrictionCollection_total [of "restrictionTokens rs" w0] by blast
  from applyRestrictionCollection_frame [OF r] assms(2)
  have "\<exists>w. initializePosition reg w1 = Inr w"
    by (auto simp: initializePosition_def)
  with r show ?thesis
    by (auto simp: applyRestrictions_tokens)
qed

lemma create_succeeds:
  assumes "data = JString t \<and> rs = [] \<or> data = JArray [t, rs]"
    and "\<forall>tok\<in>set (restrictionTokens rs). wellFormedToken tok"
    and "isVectorToken t \<or> reg (strippedName t) \<noteq> None"
  shows "\<exists>w. create reg dflt data = Inr w"
proof -
  let ?w0 = "initSpecialWaypoint t
     \<lparr>altitudeMaximum = Num (- 1), altitudeMinimum = Num (- 1),
      speedMaximum = Num (- 1), speedMinimum = Num (- 1),
      u_holdParameters = Some dflt,
      u_isFlyOverWaypoint = False, u_isHoldWaypoint = False,
      u_isVectorWaypoint = False, u_name = replaceFirst CHR ''^'' (replaceFirst CHR ''@'' t),
      u_positionModel = None\<rparr>"
  from assms(3) have "u_isVectorWaypoint ?w0 \<or> reg (u_name ?w0) \<noteq> None"
    by (simp add: initSpecialWaypoint_fields strippedName_def replaceFirst_remove1)
  from steps_succeed [of rs ?w0 reg, OF assms(2) this] obtain w1 w where
    "applyRestrictions rs ?w0 = Inr w1" "initializePosition reg w1 = Inr w"
    by blast
  with assms(1) show ?thesis
    by (auto simp: create_def init_def)
qed

lemma legacy_create_succeeds:
  assumes "data = JString t \<and> rs = [] \<or> data = JArray [t, rs]"
    and "\<forall>tok\<in>set (restrictionTokens rs). wellFormedToken tok"
    and "isVectorToken t \<or> reg (strippedName t) \<noteq> None"
  shows "\<exists>w :: ('p, 'n) WaypointModel. legacy_create reg data = Inr w"
proof -
  let ?w0 = "legacy_initSpecialWaypoint t
     \<lparr>altitudeMaximum = Num (- 1), altitudeMinimum = Num (- 1),
      speedMaximum = Num (- 1), speedMinimum = Num (- 1),
      u_holdParameters = None,
      u_isFlyOverWaypoint = False, u_isHoldWaypoint = False,
      u_isVectorWaypoint = False, u_name = replaceFirst CHR ''^'' (replaceFirst CHR ''@'' t),
      u_positionModel = None\<rparr> :: ('p, 'n) WaypointModel"
  from assms(3) have "u_isVectorWaypoint ?w0 \<or> reg (u_name ?w0) \<noteq> None"
    by (simp add: legacy_initSpecialWaypoint_fields strippedName_def replaceFirst_remove1)
  from steps_succeed [of rs ?w0 reg, OF assms(2) this] obtain w1 w where
    "applyRestrictions rs ?w0 = Inr w1" "initializePosition reg w1 = Inr w"
    by blast
  with assms(1) show ?thesis
    by (auto simp: legacy_create_def legacy_init_def)
qed

lemmas waypoint_eval =
  create_def legacy_create_def init_def legacy_init_def applyRestrictions_def
  applyAltitudeRestriction_def applySpeedRestriction_def parseInt_def parseSigned_def
  isDigit_def isWhiteSpace_def initSpecialWaypoint_def legacy_initSpecialWaypoint_def
  INVALID_INDEX_def INVALID_NUMBER_def initializePosition_def initFlyOverWaypoint_def
  initHoldWaypoint_def legacy_initHoldWaypoint_def initVectorWaypoint_def
  isFlyOverWaypoint_def isHoldWaypoint_def isVectorWaypoint_def positionModel_def
  getVector_def

lemmas claim_eval =
  restrictionTokens_def wellFormedToken_def isVectorToken_def strippedName_def
  boundAfter_def setsMinimum_def setsMaximum_def restrictionValue_def statedVectorDegrees_def

lemma count_list_remove1:
  "count_list (remove1 c xs) d = (if c = d then count_list xs d - 1 else count_list xs d)"
proof (induction xs)
  case Nil
  show ?case by simp
next
  case (Cons x xs)
  show ?case
  proof (cases "x = c")
    case True
    then show ?thesis by simp
  next
    case False
    with Cons show ?thesis
      by (cases "c \<in> set xs") (auto simp: count_list_0_iff)
  qed
qed

lemma vector_skips_lookup:
  assumes "u_isVectorWaypoint w0"
  shows "(case applyRestrictions rs w0 of Inl e \<Rightarrow> Inl e | Inr w' \<Rightarrow> initializePosition reg w') =
         applyRestrictions rs w0"
proof (cases "applyRestrictions rs w0")
  case (Inl e)
  then show ?thesis by simp
next
  case (Inr w1)
  then have "applyRestrictionCollection (restrictionTokens rs) w0 = Inr w1"
    by (simp add: applyRestrictions_tokens)
  from applyRestrictionCollection_frame [OF this] assms Inr show ?thesis
    by (simp add: initializePosition_def)
qed

lemma vector_create_any_registry:
  assumes "isVectorToken t" and "data = JString t \<and> rs = [] \<or> data = JArray [t, rs]"
  shows "create reg dflt data = create reg' dflt data"
    and "legacy_create reg data = legacy_create reg' data"
  using assms
  by (auto simp: create_def legacy_create_def init_def legacy_init_def vector_skips_lookup
      initSpecialWaypoint_fields legacy_initSpecialWaypoint_fields)

lemma getVector_created:
  assumes "create reg dflt data = Inr w \<or> legacy_create reg data = Inr w"
    and "data = JString t \<and> rs = [] \<or> data = JArray [t, rs]"
    and "isVectorToken t"
  shows "isVectorWaypoint w" and "positionModel w = None"
    and "getVector degreesToRadians w = Some (degreesToRadians (parseInt (remove1 CHR ''#'' t)))"
proof -
  note f = created_fields(1,4,5) [OF assms(1,2)]
  from assms(3) have n: "strippedName t = t"
    by (simp add: strippedName_def isVectorToken_def remove1_idem)
  from f assms(3) show "isVectorWaypoint w" by (simp add: isVectorWaypoint_def)
  from f assms(3) show "positionModel w = None" by (simp add: positionModel_def)
  from f assms(3) n
  show "getVector degreesToRadians w = Some (degreesToRadians (parseInt (remove1 CHR ''#'' t)))"
    by (simp add: getVector_def replaceFirst_remove1)
qed

lemma not_Inr_is_Inl: "(\<forall>w. x \<noteq> Inr w) \<Longrightarrow> \<exists>e. x = Inl e"
  by (cases x) auto

text \<open>The methods of \<open>WaypointModel.js\<close> answer without raising where the later
  revision raises.\<close>

lemma legacy_bearing_distance_lenient:
  assumes "x = ArgOther \<or> isVectorWaypoint w \<or> (\<exists>y. x = ArgWaypoint y \<and> isVectorWaypoint y)"
  shows "legacy_calculateBearingToWaypoint bearingToPosition w x = Inr Undefined"
    and "legacy_calculateDistanceToWaypoint distanceToPosition w x = Inr Zero"
  using assms
  by (cases x;
      auto simp: legacy_calculateBearingToWaypoint_def legacy_calculateDistanceToWaypoint_def
        isVectorWaypoint_def)+

section \<open>Claims on the waypoint model\<close>

subsection \<open>C1: restriction strings\<close>

text \<open>
  C1, as amended. For every restriction string whose pieces all begin with \<open>A\<close> or \<open>S\<close>
  (and a fix name that resolves, or a vector token), construction succeeds in both
  revisions, and each of the four bounds is the value of the last piece that sets it,
  or the unset sentinel -1 when no piece sets it. The value of a piece is
  \<open>parseInt\<close> of its remainder, times 100 for \<open>A\<close>. A remainder with a \<open>+\<close> sets the
  minimum only; one with a \<open>-\<close> and no \<open>+\<close> sets the maximum only; one with neither
  sets both.
\<close>

theorem C1_restrictions_applied:
  assumes "list_all wellFormedToken (restrictionTokens rs)"
    and "isVectorToken t \<or> reg (strippedName t) \<noteq> None"
  shows "(\<exists>w :: ('p, 'n) WaypointModel. create reg dflt (JArray [t, rs]) = Inr w \<and>
            altitudeMinimum w = boundAfter (setsMinimum CHR ''A'') (Num (- 1)) (restrictionTokens rs) \<and>
            altitudeMaximum w = boundAfter (setsMaximum CHR ''A'') (Num (- 1)) (restrictionTokens rs) \<and>
            speedMinimum w = boundAfter (setsMinimum CHR ''S'') (Num (- 1)) (restrictionTokens rs) \<and>
            speedMaximum w = boundAfter (setsMaximum CHR ''S'') (Num (- 1)) (restrictionTokens rs)) \<and>
         (\<exists>w :: ('p, 'n) WaypointModel. legacy_create reg (JArray [t, rs]) = Inr w \<and>
            altitudeMinimum w = boundAfter (setsMinimum CHR ''A'') (Num (- 1)) (restrictionTokens rs) \<and>
            altitudeMaximum w = boundAfter (setsMaximum CHR ''A'') (Num (- 1)) (restrictionTokens rs) \<and>
            speedMinimum w = boundAfter (setsMinimum CHR ''S'') (Num (- 1)) (restrictionTokens rs) \<and>
            speedMaximum w = boundAfter (setsMaximum CHR ''S'') (Num (- 1)) (restrictionTokens rs))"
proof -
  have shape: "JArray [t, rs] = JString t \<and> rs = [] \<or> JArray [t, rs] = JArray [t, rs]" by simp
  from assms(1) have wf: "\<forall>tok\<in>set (restrictionTokens rs). wellFormedToken tok"
    by (simp add: list_all_iff)
  from create_succeeds [where reg = reg and t = t and dflt = dflt, OF shape wf assms(2)]
  obtain w :: "('p, 'n) WaypointModel" where w: "create reg dflt (JArray [t, rs]) = Inr w" by blast
  from legacy_create_succeeds [where reg = reg and t = t, OF shape wf assms(2)]
  obtain v :: "('p, 'n) WaypointModel" where v: "legacy_create reg (JArray [t, rs]) = Inr v" by blast
  from w have w': "create reg dflt (JArray [t, rs]) = Inr w \<or> legacy_create reg (JArray [t, rs]) = Inr w"
    by simp
  from v have v': "create reg dflt (JArray [t, rs]) = Inr v \<or> legacy_create reg (JArray [t, rs]) = Inr v"
    by simp
  show ?thesis
    using w v created_fields(7-10) [OF w' shape] created_fields(7-10) [OF v' shape]
    by simp
qed

text \<open>The example of the claim: \<open>["CLAYT", "A50-|S210-"]\<close>.\<close>

theorem C1_restrictions_applied_witness:
  "list_all wellFormedToken (restrictionTokens ''A50-|S210-'') \<and>
   (\<exists>w. create (map_of [(''CLAYT'', 0 :: nat)])
           \<lparr>inboundHeading = None :: unit option, legLength = 1, timer = Num (- 1),
              turnDirection = ''right''\<rparr>
           (JArray [''CLAYT'', ''A50-|S210-'']) = Inr w \<and>
        altitudeMaximum w = Num 5000 \<and> altitudeMinimum w = Num (- 1) \<and>
        speedMaximum w = Num 210 \<and> speedMinimum w = Num (- 1))"
proof -
  have h1: "list_all wellFormedToken (restrictionTokens ''A50-|S210-'')"
    by (simp add: claim_eval)
  have h2: "isVectorToken ''CLAYT'' \<or> map_of [(''CLAYT'', 0 :: nat)] (strippedName ''CLAYT'') \<noteq> None"
    by (simp add: claim_eval)
  have v: "boundAfter (setsMinimum CHR ''A'') (Num (- 1)) (restrictionTokens ''A50-|S210-'') = Num (- 1)"
    "boundAfter (setsMaximum CHR ''A'') (Num (- 1)) (restrictionTokens ''A50-|S210-'') = Num 5000"
    "boundAfter (setsMinimum CHR ''S'') (Num (- 1)) (restrictionTokens ''A50-|S210-'') = Num (- 1)"
    "boundAfter (setsMaximum CHR ''S'') (Num (- 1)) (restrictionTokens ''A50-|S210-'') = Num 210"
    by (simp_all add: claim_eval waypoint_eval)
  from C1_restrictions_applied [where reg = "map_of [(''CLAYT'', 0 :: nat)]" and t = "''CLAYT''"
      and dflt = "\<lparr>inboundHeading = None :: unit option, legLength = 1, timer = Num (- 1),
              turnDirection = ''right''\<rparr>", OF h1 h2]
  show ?thesis unfolding v using h1 by blast
qed

text \<open>
  C1 as stated says that a remainder containing \<open>-\<close> anywhere sets only the maximum.
  The remainder \<open>50+-\<close> contains \<open>-\<close>; the test for \<open>+\<close> comes first, so the minimum
  is set and the maximum stays unset.
\<close>

theorem C1_counterexample:
  "CHR ''-'' \<in> set ''50+-'' \<and>
   legacy_create (map_of [(''CLAYT'', 0 :: nat)]) (JArray [''CLAYT'', ''A50+-'']) =
     Inr \<lparr>altitudeMaximum = Num (- 1), altitudeMinimum = Num 5000,
          speedMaximum = Num (- 1), speedMinimum = Num (- 1),
          u_holdParameters = None :: unit holdParameters option,
          u_isFlyOverWaypoint = False, u_isHoldWaypoint = False, u_isVectorWaypoint = False,
          u_name = ''CLAYT'', u_positionModel = Some 0\<rparr>"
  by (simp add: waypoint_eval)

subsection \<open>C2: precedence of the markers\<close>

text \<open>
  C2. Whatever the token of a successful construction (either revision, bare token or
  pair), the three flags are decided in the order fly-over (\<open>^\<close>), hold (\<open>@\<close>),
  vector (\<open>#\<close>), and at most one of them is set: the first marker found in that
  order decides alone.
\<close>

theorem C2_marker_precedence:
  assumes "create reg dflt data = Inr w \<or> legacy_create reg data = Inr w"
    and "data = JString t \<and> rs = [] \<or> data = JArray [t, rs]"
  shows "(isFlyOverWaypoint w, isHoldWaypoint w, isVectorWaypoint w) =
     (if CHR ''^'' \<in> set t then (True, False, False)
      else if CHR ''@'' \<in> set t then (False, True, False)
      else if CHR ''#'' \<in> set t then (False, False, True)
      else (False, False, False))"
  using created_fields(2-4) [OF assms]
  by (simp add: isFlyOverWaypoint_def isHoldWaypoint_def isVectorWaypoint_def isVectorToken_def)

text \<open>A token with both \<open>^\<close> and \<open>#\<close>: a fly-over waypoint that is not a vector waypoint
  (its name \<open>#270\<close> is then looked up in the registry).\<close>

theorem C2_marker_precedence_witness:
  "create (map_of [(''#270'', 0 :: nat)])
      \<lparr>inboundHeading = None :: unit option, legLength = 1, timer = Num (- 1),
         turnDirection = ''right''\<rparr>
      (JString ''^#270'') =
     Inr \<lparr>altitudeMaximum = Num (- 1), altitudeMinimum = Num (- 1),
          speedMaximum = Num (- 1), speedMinimum = Num (- 1),
          u_holdParameters = Some \<lparr>inboundHeading = None, legLength = 1, timer = Num (- 1),
                                     turnDirection = ''right''\<rparr>,
          u_isFlyOverWaypoint = True, u_isHoldWaypoint = False, u_isVectorWaypoint = False,
          u_name = ''#270'', u_positionModel = Some 0\<rparr> \<and>
   CHR ''^'' \<in> set ''^#270'' \<and> CHR ''#'' \<in> set ''^#270''"
proof -
  let ?d = "\<lparr>inboundHeading = None :: unit option, legLength = 1, timer = Num (- 1),
         turnDirection = ''right''\<rparr>"
  let ?w = "\<lparr>altitudeMaximum = Num (- 1), altitudeMinimum = Num (- 1),
          speedMaximum = Num (- 1), speedMinimum = Num (- 1),
          u_holdParameters = Some ?d,
          u_isFlyOverWaypoint = True, u_isHoldWaypoint = False, u_isVectorWaypoint = False,
          u_name = ''#270'', u_positionModel = Some (0 :: nat)\<rparr>"
  have c: "create (map_of [(''#270'', 0 :: nat)]) ?d (JString ''^#270'') = Inr ?w"
    by (simp add: waypoint_eval)
  then have h1: "create (map_of [(''#270'', 0 :: nat)]) ?d (JString ''^#270'') = Inr ?w \<or>
      legacy_create (map_of [(''#270'', 0 :: nat)]) (JString ''^#270'') = Inr ?w"
    by (rule disjI1)
  have h2: "JString ''^#270'' = JString ''^#270'' \<and> [] = [] \<or> JString ''^#270'' = JArray [''^#270'', []]"
    by simp
  from C2_marker_precedence [OF h1 h2] c show ?thesis
    by simp
qed

subsection \<open>C3: vector waypoints\<close>

text \<open>
  C3, as amended. For every token with \<open>#\<close> and no \<open>^\<close> or \<open>@\<close> (and well-formed
  restrictions, if any), construction succeeds in both revisions whatever the
  registry holds, the waypoint is a vector waypoint without a position model, and
  \<open>getVector\<close> converts \<open>parseInt\<close> of the stored name with its first \<open>#\<close> removed. That
  is the text after \<open>#\<close> when the token begins with \<open>#\<close>. For every waypoint that is
  not a vector waypoint \<open>getVector\<close> answers no value.
\<close>

theorem C3_vector_waypoints:
  assumes "isVectorToken t"
    and "data = JString t \<and> rs = [] \<or> data = JArray [t, rs]"
    and "list_all wellFormedToken (restrictionTokens rs)"
  shows "(\<exists>w :: ('p, 'n) WaypointModel. create reg dflt data = Inr w \<and>
            isVectorWaypoint w \<and> positionModel w = None \<and>
            getVector degreesToRadians w =
              Some (degreesToRadians (parseInt (remove1 CHR ''#'' t)))) \<and>
         (\<exists>w :: ('p, 'n) WaypointModel. legacy_create reg data = Inr w \<and>
            isVectorWaypoint w \<and> positionModel w = None \<and>
            getVector degreesToRadians w =
              Some (degreesToRadians (parseInt (remove1 CHR ''#'' t)))) \<and>
         (hd t = CHR ''#'' \<longrightarrow> parseInt (remove1 CHR ''#'' t) = statedVectorDegrees t) \<and>
         (\<not> isVectorWaypoint (v :: ('p, 'n) WaypointModel) \<longrightarrow> getVector degreesToRadians v = None)"
proof -
  from assms(3) have wf: "\<forall>tok\<in>set (restrictionTokens rs). wellFormedToken tok"
    by (simp add: list_all_iff)
  from assms(1) have ok: "isVectorToken t \<or> reg (strippedName t) \<noteq> None" by simp
  from create_succeeds [where reg = reg and t = t and dflt = dflt, OF assms(2) wf ok]
  obtain w :: "('p, 'n) WaypointModel" where w: "create reg dflt data = Inr w" by blast
  from legacy_create_succeeds [where reg = reg and t = t, OF assms(2) wf ok]
  obtain u :: "('p, 'n) WaypointModel" where u: "legacy_create reg data = Inr u" by blast
  from w have w': "create reg dflt data = Inr w \<or> legacy_create reg data = Inr w" by simp
  from u have u': "create reg dflt data = Inr u \<or> legacy_create reg data = Inr u" by simp
  from assms(1) have ne: "t \<noteq> []" by (auto simp: isVectorToken_def)
  have s: "hd t = CHR ''#'' \<longrightarrow> parseInt (remove1 CHR ''#'' t) = statedVectorDegrees t"
    using ne by (cases t) (auto simp: statedVectorDegrees_def)
  have nv: "\<not> isVectorWaypoint v \<longrightarrow> getVector degreesToRadians v = None"
    by (simp add: getVector_def isVectorWaypoint_def)
  from w u getVector_created [OF w' assms(2,1)] getVector_created [OF u' assms(2,1)] s nv
  show ?thesis by blast
qed

text \<open>The example \<open>#270\<close>: 270 degrees are handed to the conversion.\<close>

theorem C3_vector_waypoints_witness:
  "isVectorToken ''#270'' \<and> list_all wellFormedToken (restrictionTokens []) \<and>
   (\<exists>w. create (Map.empty :: string \<Rightarrow> nat option)
          \<lparr>inboundHeading = None :: unit option, legLength = 1, timer = Num (- 1),
             turnDirection = ''right''\<rparr>
          (JString ''#270'') = Inr w \<and>
        isVectorWaypoint w \<and> positionModel w = None \<and> getVector id w = Some (Num 270))"
proof -
  have h1: "isVectorToken ''#270''" by (simp add: claim_eval)
  have h2: "JString ''#270'' = JString ''#270'' \<and> [] = [] \<or> JString ''#270'' = JArray [''#270'', []]"
    by simp
  have h3: "list_all wellFormedToken (restrictionTokens [])" by (simp add: claim_eval)
  have v: "parseInt (remove1 CHR ''#'' ''#270'') = Num 270"
    by (simp add: waypoint_eval)
  from C3_vector_waypoints [where reg = "Map.empty :: string \<Rightarrow> nat option"
      and dflt = "\<lparr>inboundHeading = None :: unit option, legLength = 1, timer = Num (- 1),
             turnDirection = ''right''\<rparr>" and degreesToRadians = id, OF h1 h2 h3,
      THEN conjunct1]
  show ?thesis unfolding v using h1 h3 by simp
qed

text \<open>
  C3 as stated has \<open>getVector\<close> parse the digits after \<open>#\<close>. For the token \<open>1#70\<close> those
  are 70, while the code parses \<open>170\<close>: the characters before \<open>#\<close> stay in the
  string that is parsed.
\<close>

theorem C3_counterexample:
  "create (map_of [] :: string \<Rightarrow> nat option)
      \<lparr>inboundHeading = None :: unit option, legLength = 1, timer = Num (- 1),
         turnDirection = ''right''\<rparr>
      (JString ''1#70'') =
     Inr \<lparr>altitudeMaximum = Num (- 1), altitudeMinimum = Num (- 1),
          speedMaximum = Num (- 1), speedMinimum = Num (- 1),
          u_holdParameters = Some \<lparr>inboundHeading = None, legLength = 1, timer = Num (- 1),
                                     turnDirection = ''right''\<rparr>,
          u_isFlyOverWaypoint = False, u_isHoldWaypoint = False, u_isVectorWaypoint = True,
          u_name = ''1#70'', u_positionModel = None\<rparr> \<and>
   getVector id
     \<lparr>altitudeMaximum = Num (- 1), altitudeMinimum = Num (- 1),
          speedMaximum = Num (- 1), speedMinimum = Num (- 1),
          u_holdParameters = Some \<lparr>inboundHeading = None :: unit option, legLength = 1,
                                     timer = Num (- 1), turnDirection = ''right''\<rparr>,
          u_isFlyOverWaypoint = False, u_isHoldWaypoint = False, u_isVectorWaypoint = True,
          u_name = ''1#70'', u_positionModel = None :: nat option\<rparr> = Some (Num 170) \<and>
   statedVectorDegrees ''1#70'' = Num 70"
  by (simp add: waypoint_eval statedVectorDegrees_def)

subsection \<open>C4: position resolution\<close>

text \<open>
  C4. For a token that is not a vector token: when the stripped name is not in the
  registry, construction raises; when it is (and the restrictions are well formed),
  construction succeeds with that position model. For a vector token the registry
  is not consulted: the result is the same for any two registries. A constructed
  waypoint that is not a vector waypoint has a position model.
\<close>

theorem C4_position_resolution:
  assumes "data = JString t \<and> rs = [] \<or> data = JArray [t, rs]"
  shows "(\<not> isVectorToken t \<and> reg (strippedName t) = None \<longrightarrow>
            (\<exists>e. (create reg dflt data :: error + ('p, 'n) WaypointModel) = Inl e) \<and>
            (\<exists>e. (legacy_create reg data :: error + ('p, 'n) WaypointModel) = Inl e)) \<and>
         (\<not> isVectorToken t \<and> reg (strippedName t) = Some p \<and>
          list_all wellFormedToken (restrictionTokens rs) \<longrightarrow>
            (\<exists>w :: ('p, 'n) WaypointModel. create reg dflt data = Inr w \<and> positionModel w = Some p) \<and>
            (\<exists>w :: ('p, 'n) WaypointModel. legacy_create reg data = Inr w \<and> positionModel w = Some p)) \<and>
         (isVectorToken t \<longrightarrow>
            (create reg dflt data :: error + ('p, 'n) WaypointModel) = create reg' dflt data \<and>
            (legacy_create reg data :: error + ('p, 'n) WaypointModel) = legacy_create reg' data) \<and>
         ((create reg dflt data = Inr (w :: ('p, 'n) WaypointModel) \<or> legacy_create reg data = Inr w) \<and>
          \<not> isVectorWaypoint w \<longrightarrow> positionModel w \<noteq> None)"
proof (intro conjI impI)
  assume a: "\<not> isVectorToken t \<and> reg (strippedName t) = None"
  { fix w :: "('p, 'n) WaypointModel"
    assume "create reg dflt data = Inr w \<or> legacy_create reg data = Inr w"
    from created_fields(6) [OF this assms] a have False by simp
  } note no = this
  from no show "\<exists>e. (create reg dflt data :: error + ('p, 'n) WaypointModel) = Inl e"
    by (intro not_Inr_is_Inl) blast
  from no show "\<exists>e. (legacy_create reg data :: error + ('p, 'n) WaypointModel) = Inl e"
    by (intro not_Inr_is_Inl) blast
next
  assume a: "\<not> isVectorToken t \<and> reg (strippedName t) = Some p \<and>
          list_all wellFormedToken (restrictionTokens rs)"
  then have wf: "\<forall>tok\<in>set (restrictionTokens rs). wellFormedToken tok"
    by (simp add: list_all_iff)
  from a have ok: "isVectorToken t \<or> reg (strippedName t) \<noteq> None" by simp
  from create_succeeds [where reg = reg and t = t and dflt = dflt, OF assms wf ok]
  obtain w :: "('p, 'n) WaypointModel" where w: "create reg dflt data = Inr w" by blast
  then have "create reg dflt data = Inr w \<or> legacy_create reg data = Inr w" by simp
  from created_fields(5) [OF this assms] a w
  show "\<exists>w :: ('p, 'n) WaypointModel. create reg dflt data = Inr w \<and> positionModel w = Some p"
    by (simp add: positionModel_def)
  from legacy_create_succeeds [where reg = reg and t = t, OF assms wf ok]
  obtain u :: "('p, 'n) WaypointModel" where u: "legacy_create reg data = Inr u" by blast
  then have "create reg dflt data = Inr u \<or> legacy_create reg data = Inr u" by simp
  from created_fields(5) [OF this assms] a u
  show "\<exists>w :: ('p, 'n) WaypointModel. legacy_create reg data = Inr w \<and> positionModel w = Some p"
    by (simp add: positionModel_def)
next
  assume v: "isVectorToken t"
  from vector_create_any_registry(1) [OF v assms]
  show "(create reg dflt data :: error + ('p, 'n) WaypointModel) = create reg' dflt data" .
  from vector_create_any_registry(2) [OF v assms]
  show "(legacy_create reg data :: error + ('p, 'n) WaypointModel) = legacy_create reg' data" .
next
  assume a: "(create reg dflt data = Inr w \<or> legacy_create reg data = Inr w) \<and> \<not> isVectorWaypoint w"
  then have c: "create reg dflt data = Inr w \<or> legacy_create reg data = Inr w" by simp
  from created_fields(4,5,6) [OF c assms] a
  show "positionModel w \<noteq> None"
    by (auto simp: positionModel_def isVectorWaypoint_def)
qed

theorem C4_position_resolution_witness:
  "(\<exists>e. (create (map_of [(''CLAYT'', 0 :: nat)])
            \<lparr>inboundHeading = None :: unit option, legLength = 1, timer = Num (- 1),
               turnDirection = ''right''\<rparr>
            (JString ''@BOACH'') :: error + (nat, unit) WaypointModel) = Inl e) \<and>
   (\<exists>w. create (map_of [(''CLAYT'', 0 :: nat)])
            \<lparr>inboundHeading = None :: unit option, legLength = 1, timer = Num (- 1),
               turnDirection = ''right''\<rparr>
            (JString ''@CLAYT'') = Inr w \<and> positionModel w = Some 0) \<and>
   \<not> isVectorToken ''@BOACH'' \<and> map_of [(''CLAYT'', 0 :: nat)] (strippedName ''@BOACH'') = None \<and>
   \<not> isVectorToken ''@CLAYT'' \<and> map_of [(''CLAYT'', 0 :: nat)] (strippedName ''@CLAYT'') = Some 0"
proof -
  let ?reg = "map_of [(''CLAYT'', 0 :: nat)]"
  let ?d = "\<lparr>inboundHeading = None :: unit option, legLength = 1, timer = Num (- 1),
               turnDirection = ''right''\<rparr>"
  have s1: "JString ''@BOACH'' = JString ''@BOACH'' \<and> [] = [] \<or>
      JString ''@BOACH'' = JArray [''@BOACH'', []]" by simp
  have s2: "JString ''@CLAYT'' = JString ''@CLAYT'' \<and> [] = [] \<or>
      JString ''@CLAYT'' = JArray [''@CLAYT'', []]" by simp
  have h1: "\<not> isVectorToken ''@BOACH'' \<and> ?reg (strippedName ''@BOACH'') = None"
    by (simp add: claim_eval)
  have h2: "\<not> isVectorToken ''@CLAYT'' \<and> ?reg (strippedName ''@CLAYT'') = Some 0 \<and>
      list_all wellFormedToken (restrictionTokens [])"
    by (simp add: claim_eval)
  from C4_position_resolution [where reg = ?reg and dflt = ?d and p = 0, OF s1, THEN conjunct1] h1
  have a: "\<exists>e. (create ?reg ?d (JString ''@BOACH'') :: error + (nat, unit) WaypointModel) = Inl e"
    by blast
  from C4_position_resolution [where reg = ?reg and dflt = ?d and p = 0, OF s2,
      THEN conjunct2, THEN conjunct1] h2
  have b: "\<exists>w :: (nat, unit) WaypointModel. create ?reg ?d (JString ''@CLAYT'') = Inr w \<and>
      positionModel w = Some 0"
    by blast
  from a b h1 h2 show ?thesis by simp
qed

subsection \<open>C5: strict bearing and distance\<close>

text \<open>
  C5. The bearing and distance methods of the later revision raise when the argument
  is not a \<open>WaypointModel\<close>, when the receiver is a vector waypoint, or when the
  argument is a vector waypoint.
\<close>

theorem C5_strict_bearing_distance:
  assumes "x = ArgOther \<or> isVectorWaypoint w \<or> (\<exists>y. x = ArgWaypoint y \<and> isVectorWaypoint y)"
  shows "(\<exists>e. calculateBearingToWaypoint bearingToPosition w x = Inl e) \<and>
         (\<exists>e. calculateDistanceToWaypoint distanceToPosition w x = Inl e) \<and>
         (x = ArgOther \<longrightarrow>
            calculateBearingToWaypoint bearingToPosition w x = Inl NotAWaypointModel \<and>
            calculateDistanceToWaypoint distanceToPosition w x = Inl NotAWaypointModel) \<and>
         (x \<noteq> ArgOther \<longrightarrow>
            calculateBearingToWaypoint bearingToPosition w x = Inl VectorWaypoint \<and>
            calculateDistanceToWaypoint distanceToPosition w x = Inl VectorWaypoint)"
  using assms
  by (cases x)
     (auto simp: calculateBearingToWaypoint_def calculateDistanceToWaypoint_def
        ensureNonVectorWaypointsForThisAndWaypoint_def isVectorWaypoint_def)

theorem C5_strict_bearing_distance_witness:
  "isVectorWaypoint
     \<lparr>altitudeMaximum = Num (- 1), altitudeMinimum = Num (- 1),
      speedMaximum = Num (- 1), speedMinimum = Num (- 1),
      u_holdParameters = None :: unit holdParameters option,
      u_isFlyOverWaypoint = False, u_isHoldWaypoint = False, u_isVectorWaypoint = True,
      u_name = ''#270'', u_positionModel = None :: nat option\<rparr> \<and>
   calculateBearingToWaypoint (\<lambda>p q. Inr (0 :: nat))
     \<lparr>altitudeMaximum = Num (- 1), altitudeMinimum = Num (- 1),
      speedMaximum = Num (- 1), speedMinimum = Num (- 1),
      u_holdParameters = None :: unit holdParameters option,
      u_isFlyOverWaypoint = False, u_isHoldWaypoint = False, u_isVectorWaypoint = False,
      u_name = ''CLAYT'', u_positionModel = Some (5 :: nat)\<rparr>
     (ArgWaypoint
        \<lparr>altitudeMaximum = Num (- 1), altitudeMinimum = Num (- 1),
         speedMaximum = Num (- 1), speedMinimum = Num (- 1),
         u_holdParameters = None, u_isFlyOverWaypoint = False, u_isHoldWaypoint = False,
         u_isVectorWaypoint = True, u_name = ''#270'', u_positionModel = None\<rparr>) =
     Inl VectorWaypoint \<and>
   calculateDistanceToWaypoint (\<lambda>p q. Inr (0 :: nat))
     \<lparr>altitudeMaximum = Num (- 1), altitudeMinimum = Num (- 1),
      speedMaximum = Num (- 1), speedMinimum = Num (- 1),
      u_holdParameters = None :: unit holdParameters option,
      u_isFlyOverWaypoint = False, u_isHoldWaypoint = False, u_isVectorWaypoint = False,
      u_name = ''CLAYT'', u_positionModel = Some (5 :: nat)\<rparr>
     ArgOther = Inl NotAWaypointModel"
proof -
  let ?v = "\<lparr>altitudeMaximum = Num (- 1), altitudeMinimum = Num (- 1),
      speedMaximum = Num (- 1), speedMinimum = Num (- 1),
      u_holdParameters = None :: unit holdParameters option,
      u_isFlyOverWaypoint = False, u_isHoldWaypoint = False, u_isVectorWaypoint = True,
      u_name = ''#270'', u_positionModel = None :: nat option\<rparr>"
  let ?w = "\<lparr>altitudeMaximum = Num (- 1), altitudeMinimum = Num (- 1),
      speedMaximum = Num (- 1), speedMinimum = Num (- 1),
      u_holdParameters = None :: unit holdParameters option,
      u_isFlyOverWaypoint = False, u_isHoldWaypoint = False, u_isVectorWaypoint = False,
      u_name = ''CLAYT'', u_positionModel = Some (5 :: nat)\<rparr>"
  have v: "isVectorWaypoint ?v" by (simp add: isVectorWaypoint_def)
  then have h1: "ArgWaypoint ?v = ArgOther \<or> isVectorWaypoint ?w \<or>
      (\<exists>y. ArgWaypoint ?v = ArgWaypoint y \<and> isVectorWaypoint y)"
    by blast
  have h2: "(ArgOther :: (nat, unit) jsarg) = ArgOther \<or> isVectorWaypoint ?w \<or>
      (\<exists>y. (ArgOther :: (nat, unit) jsarg) = ArgWaypoint y \<and> isVectorWaypoint y)"
    by blast
  from C5_strict_bearing_distance [OF h1, of "\<lambda>p q. Inr (0 :: nat)" "\<lambda>p q. Inr (0 :: nat)"]
    C5_strict_bearing_distance [OF h2, of "\<lambda>p q. Inr (0 :: nat)" "\<lambda>p q. Inr (0 :: nat)"] v
  show ?thesis by simp
qed

subsection \<open>C6: reset, then init\<close>

text \<open>
  C6. For every string or array, \<open>init\<close> after \<open>reset\<close> on any waypoint gives what the
  constructor gives (the same waypoint, or the same error), in both revisions;
  \<open>reset\<close> leaves the fields the constructor starts from, whatever the waypoint held.
\<close>

theorem C6_reset_then_init:
  assumes "data \<noteq> JOther"
  shows "init reg data (reset dflt w) = create reg dflt data \<and>
         legacy_init reg data (legacy_reset w) = legacy_create reg data \<and>
         reset dflt w =
           \<lparr>altitudeMaximum = Num (- 1), altitudeMinimum = Num (- 1),
            speedMaximum = Num (- 1), speedMinimum = Num (- 1),
            u_holdParameters = Some dflt,
            u_isFlyOverWaypoint = False, u_isHoldWaypoint = False, u_isVectorWaypoint = False,
            u_name = [], u_positionModel = None\<rparr> \<and>
         legacy_reset w =
           \<lparr>altitudeMaximum = Num (- 1), altitudeMinimum = Num (- 1),
            speedMaximum = Num (- 1), speedMinimum = Num (- 1),
            u_holdParameters = None,
            u_isFlyOverWaypoint = False, u_isHoldWaypoint = False, u_isVectorWaypoint = False,
            u_name = [], u_positionModel = None\<rparr>"
proof -
  have r: "reset dflt w =
           \<lparr>altitudeMaximum = Num (- 1), altitudeMinimum = Num (- 1),
            speedMaximum = Num (- 1), speedMinimum = Num (- 1),
            u_holdParameters = Some dflt,
            u_isFlyOverWaypoint = False, u_isHoldWaypoint = False, u_isVectorWaypoint = False,
            u_name = [], u_positionModel = None\<rparr>"
    by (cases w) (simp add: reset_def)
  have l: "legacy_reset w =
           \<lparr>altitudeMaximum = Num (- 1), altitudeMinimum = Num (- 1),
            speedMaximum = Num (- 1), speedMinimum = Num (- 1),
            u_holdParameters = None,
            u_isFlyOverWaypoint = False, u_isHoldWaypoint = False, u_isVectorWaypoint = False,
            u_name = [], u_positionModel = None\<rparr>"
    by (cases w) (simp add: legacy_reset_def)
  from assms have "init reg data (reset dflt w) = create reg dflt data"
    unfolding r by (cases data) (simp_all add: create_def)
  moreover from assms have "legacy_init reg data (legacy_reset w) = legacy_create reg data"
    unfolding l by (cases data) (simp_all add: legacy_create_def)
  ultimately show ?thesis using r l by simp
qed

theorem C6_reset_then_init_witness:
  "JString ''^CLAYT'' \<noteq> JOther \<and>
   init (map_of [(''CLAYT'', 0 :: nat)]) (JString ''^CLAYT'')
     (reset \<lparr>inboundHeading = None :: unit option, legLength = 1, timer = Num (- 1),
               turnDirection = ''right''\<rparr>
        \<lparr>altitudeMaximum = Num 5000, altitudeMinimum = Num (- 1),
         speedMaximum = Num 210, speedMinimum = Num 210,
         u_holdParameters = Some \<lparr>inboundHeading = None, legLength = 3, timer = Num 90,
                                    turnDirection = ''left''\<rparr>,
         u_isFlyOverWaypoint = False, u_isHoldWaypoint = True, u_isVectorWaypoint = True,
         u_name = ''#270'', u_positionModel = Some 7\<rparr>) =
   Inr \<lparr>altitudeMaximum = Num (- 1), altitudeMinimum = Num (- 1),
        speedMaximum = Num (- 1), speedMinimum = Num (- 1),
        u_holdParameters = Some \<lparr>inboundHeading = None, legLength = 1, timer = Num (- 1),
                                   turnDirection = ''right''\<rparr>,
        u_isFlyOverWaypoint = True, u_isHoldWaypoint = False, u_isVectorWaypoint = False,
        u_name = ''CLAYT'', u_positionModel = Some 0\<rparr>"
proof -
  have h: "JString ''^CLAYT'' \<noteq> JOther" by simp
  have c: "create (map_of [(''CLAYT'', 0 :: nat)])
      \<lparr>inboundHeading = None :: unit option, legLength = 1, timer = Num (- 1),
               turnDirection = ''right''\<rparr> (JString ''^CLAYT'') =
   Inr \<lparr>altitudeMaximum = Num (- 1), altitudeMinimum = Num (- 1),
        speedMaximum = Num (- 1), speedMinimum = Num (- 1),
        u_holdParameters = Some \<lparr>inboundHeading = None, legLength = 1, timer = Num (- 1),
                                   turnDirection = ''right''\<rparr>,
        u_isFlyOverWaypoint = True, u_isHoldWaypoint = False, u_isVectorWaypoint = False,
        u_name = ''CLAYT'', u_positionModel = Some 0\<rparr>"
    by (simp add: waypoint_eval)
  from C6_reset_then_init [where reg = "map_of [(''CLAYT'', 0 :: nat)]"
      and dflt = "\<lparr>inboundHeading = None :: unit option, legLength = 1, timer = Num (- 1),
               turnDirection = ''right''\<rparr>"
      and w = "\<lparr>altitudeMaximum = Num 5000, altitudeMinimum = Num (- 1),
         speedMaximum = Num 210, speedMinimum = Num 210,
         u_holdParameters = Some \<lparr>inboundHeading = None, legLength = 3, timer = Num 90,
                                    turnDirection = ''left''\<rparr>,
         u_isFlyOverWaypoint = False, u_isHoldWaypoint = True, u_isVectorWaypoint = True,
         u_name = ''#270'', u_positionModel = Some 7\<rparr>", OF h, THEN conjunct1]
  have "init (map_of [(''CLAYT'', 0 :: nat)]) (JString ''^CLAYT'')
     (reset \<lparr>inboundHeading = None :: unit option, legLength = 1, timer = Num (- 1),
               turnDirection = ''right''\<rparr>
        \<lparr>altitudeMaximum = Num 5000, altitudeMinimum = Num (- 1),
         speedMaximum = Num 210, speedMinimum = Num 210,
         u_holdParameters = Some \<lparr>inboundHeading = None, legLength = 3, timer = Num 90,
                                    turnDirection = ''left''\<rparr>,
         u_isFlyOverWaypoint = False, u_isHoldWaypoint = True, u_isVectorWaypoint = True,
         u_name = ''#270'', u_positionModel = Some 7\<rparr>) =
     create (map_of [(''CLAYT'', 0 :: nat)])
      \<lparr>inboundHeading = None :: unit option, legLength = 1, timer = Num (- 1),
               turnDirection = ''right''\<rparr> (JString ''^CLAYT'')" .
  with c h show ?thesis
    by (simp only: simp_thms)
qed

subsection \<open>C10: the stored name\<close>

text \<open>
  C10. The stored name of a constructed waypoint is the token without its first \<open>@\<close>
  and without its first \<open>^\<close>: one occurrence fewer of each (if any), and as many \<open>#\<close>
  as the token has. The flags depend on a marker being anywhere in the token.
\<close>

theorem C10_stored_name:
  assumes "create reg dflt data = Inr w \<or> legacy_create reg data = Inr w"
    and "data = JString t \<and> rs = [] \<or> data = JArray [t, rs]"
  shows "u_name w = remove1 CHR ''^'' (remove1 CHR ''@'' t) \<and>
     count_list (u_name w) CHR ''@'' = count_list t CHR ''@'' - 1 \<and>
     count_list (u_name w) CHR ''^'' = count_list t CHR ''^'' - 1 \<and>
     count_list (u_name w) CHR ''#'' = count_list t CHR ''#'' \<and>
     isFlyOverWaypoint w = (CHR ''^'' \<in> set t) \<and>
     isHoldWaypoint w = (CHR ''^'' \<notin> set t \<and> CHR ''@'' \<in> set t) \<and>
     isVectorWaypoint w = (CHR ''^'' \<notin> set t \<and> CHR ''@'' \<notin> set t \<and> CHR ''#'' \<in> set t)"
  using created_fields(1-4) [OF assms]
  by (simp add: isFlyOverWaypoint_def isHoldWaypoint_def isVectorWaypoint_def isVectorToken_def
      strippedName_def count_list_remove1)

text \<open>The example \<open>@@CLAYT\<close>: the stored name is \<open>@CLAYT\<close>.\<close>

theorem C10_stored_name_witness:
  "legacy_create (map_of [(''@CLAYT'', 0 :: nat)]) (JString ''@@CLAYT'') =
     Inr \<lparr>altitudeMaximum = Num (- 1), altitudeMinimum = Num (- 1),
          speedMaximum = Num (- 1), speedMinimum = Num (- 1),
          u_holdParameters = Some \<lparr>inboundHeading = None :: unit option, legLength = 1,
                                     timer = Num (- 1), turnDirection = ''right''\<rparr>,
          u_isFlyOverWaypoint = False, u_isHoldWaypoint = True, u_isVectorWaypoint = False,
          u_name = ''@CLAYT'', u_positionModel = Some 0\<rparr> \<and>
   remove1 CHR ''^'' (remove1 CHR ''@'' ''@@CLAYT'') = ''@CLAYT'' \<and>
   count_list ''@@CLAYT'' CHR ''@'' - 1 = (1 :: nat)"
proof -
  let ?w = "\<lparr>altitudeMaximum = Num (- 1), altitudeMinimum = Num (- 1),
          speedMaximum = Num (- 1), speedMinimum = Num (- 1),
          u_holdParameters = Some \<lparr>inboundHeading = None :: unit option, legLength = 1,
                                     timer = Num (- 1), turnDirection = ''right''\<rparr>,
          u_isFlyOverWaypoint = False, u_isHoldWaypoint = True, u_isVectorWaypoint = False,
          u_name = ''@CLAYT'', u_positionModel = Some (0 :: nat)\<rparr>"
  have c: "legacy_create (map_of [(''@CLAYT'', 0 :: nat)]) (JString ''@@CLAYT'') = Inr ?w"
    by (simp add: waypoint_eval)
  then have h1: "create (map_of [(''@CLAYT'', 0 :: nat)]) dflt (JString ''@@CLAYT'') = Inr ?w \<or>
      legacy_create (map_of [(''@CLAYT'', 0 :: nat)]) (JString ''@@CLAYT'') = Inr ?w" for dflt
    by (rule disjI2)
  have h2: "JString ''@@CLAYT'' = JString ''@@CLAYT'' \<and> [] = [] \<or>
      JString ''@@CLAYT'' = JArray [''@@CLAYT'', []]"
    by simp
  from C10_stored_name [OF h1 h2] c show ?thesis
    by simp
qed

section \<open>Lemmas on the navigation library\<close>

lemma js_in_append: "js_in n (c @ [(m, a)]) = (n = m \<or> js_in n c)"
  by (auto simp: js_in_def)

lemma forEachAirway_raises:
  "\<not> distinct (map fst as) \<or> (\<exists>n\<in>set (map fst as). js_in n c) \<Longrightarrow>
     \<exists>e. forEachAirway new as c = Inl e"
proof (induction as arbitrary: c)
  case Nil
  then show ?case by simp
next
  case (Cons x as)
  obtain m f where x: "x = (m, f)" by (cases x)
  show ?case
  proof (cases "js_in m c")
    case True
    with x show ?thesis by simp
  next
    case False
    show ?thesis
    proof (cases "new m f")
      case (Inl e)
      with False x show ?thesis by simp
    next
      case (Inr a)
      from Cons.prems False x
      have "\<not> distinct (map fst as) \<or> (\<exists>n\<in>set (map fst as). js_in n (c @ [(m, a)]))"
        by (auto simp: js_in_append)
      from Cons.IH [OF this] False x Inr show ?thesis by simp
    qed
  qed
qed


lemma forEachAirway_keys:
  "forEachAirway new as c = Inr c' \<Longrightarrow> map fst c' = map fst c @ map fst as"
proof (induction as arbitrary: c)
  case Nil
  then show ?case by simp
next
  case (Cons x as)
  obtain m f where x: "x = (m, f)" by (cases x)
  with Cons.prems obtain a where "forEachAirway new as (c @ [(m, a)]) = Inr c'"
    by (auto split: if_splits sum.splits)
  from Cons.IH [OF this] x show ?case by simp
qed


lemma forEachProcedure_raises:
  "\<not> distinct (map fst ps) \<or> (\<exists>n\<in>set (map fst ps). js_in n c) \<Longrightarrow>
     \<exists>e. forEachProcedure new ps c = Inl e"
proof (induction ps arbitrary: c)
  case Nil
  then show ?case by simp
next
  case (Cons x ps)
  obtain m f where x: "x = (m, f)" by (cases x)
  show ?case
  proof (cases "js_in m c")
    case True
    with x show ?thesis by simp
  next
    case False
    show ?thesis
    proof (cases "new f")
      case (Inl e)
      with False x show ?thesis by simp
    next
      case (Inr a)
      from Cons.prems False x
      have "\<not> distinct (map fst ps) \<or> (\<exists>n\<in>set (map fst ps). js_in n (c @ [(m, a)]))"
        by (auto simp: js_in_append)
      from Cons.IH [OF this] False x Inr show ?thesis by simp
    qed
  qed
qed


lemma forEachProcedure_keys:
  "forEachProcedure new ps c = Inr c' \<Longrightarrow> map fst c' = map fst c @ map fst ps"
proof (induction ps arbitrary: c)
  case Nil
  then show ?case by simp
next
  case (Cons x ps)
  obtain m f where x: "x = (m, f)" by (cases x)
  with Cons.prems obtain a where "forEachProcedure new ps (c @ [(m, a)]) = Inr c'"
    by (auto split: if_splits sum.splits)
  from Cons.IH [OF this] x show ?case by simp
qed


lemma js_in_keys: "map fst c' = map fst c @ ks \<Longrightarrow> js_in n c' = (js_in n c \<or> n \<in> set ks)"
  by (auto simp: js_in_def)







lemmas nav_eval =
  NavigationLibrary_init_def initializeReferencePosition_def initializeFixCollection_def
  initializeAirwayCollection_def initializeProcedureCollection_def
  showConsoleWarningForUndefinedFixes_def getAllFixNamesInUse_def flatten_def uniq_def
  withoutUndefined_def NavigationLibrary_new_def js_in_def js_get_def objectPrototypeKeys_def
  hasAirway_def hasProcedure_def getAirway_def getProcedure_def hasSids_def hasStars_def
  sampleCollaborators_def sampleAirport_def

lemma sample_init:
  "NavigationLibrary_init sampleCollaborators sampleAirport (NavigationLibrary_new, []) =
     Inr (\<lparr>u_airwayCollection = [(''V1'', [''BBB'', ''ZZZ'', ''AAA'']), (''V2'', [''ZZZ'', ''MMM''])],
           u_procedureCollection = [(''S1'', (SID, [''MMM'', ''AAA''])), (''T1'', (STAR, [''BBB'']))],
           u_referencePosition = Some ()\<rparr>,
          [(''AAA'', 1), (''BBB'', 2)],
          Some [''MMM'', ''ZZZ''])"
  by (simp add: nav_eval)

lemma init_Inr_steps:
  assumes "NavigationLibrary_init ext j (lib, fcs) = Inr (lib3, fc1, w)"
  shows "\<exists>r ac pcs pc.
      newStaticPositionModel ext (json_position j) (json_magnetic_north j) = Inr r \<and>
      fc_addItems ext (json_fixes j) (Some r) fcs = Inr fc1 \<and>
      forEachAirway (newAirwayModel ext fc1) (json_airways j) (u_airwayCollection lib) = Inr ac \<and>
      forEachProcedure (newProcedureModel ext SID) (json_sids j) (u_procedureCollection lib) = Inr pcs \<and>
      forEachProcedure (newProcedureModel ext STAR) (json_stars j) pcs = Inr pc \<and>
      u_airwayCollection lib3 = ac \<and> u_procedureCollection lib3 = pc \<and>
      w = showConsoleWarningForUndefinedFixes ext fc1 lib3"
  using assms
  by (auto simp: NavigationLibrary_init_def initializeReferencePosition_def
        initializeFixCollection_def initializeAirwayCollection_def
        initializeProcedureCollection_def
      split: sum.splits)


lemma init_raises:
  assumes "\<And>fc1. \<exists>e. forEachAirway (newAirwayModel ext fc1) (json_airways j) (u_airwayCollection lib) = Inl e
            \<or> (\<exists>e. forEachProcedure (newProcedureModel ext SID) (json_sids j) (u_procedureCollection lib) = Inl e)
            \<or> (\<forall>pcs. forEachProcedure (newProcedureModel ext SID) (json_sids j) (u_procedureCollection lib) = Inr pcs
                  \<longrightarrow> (\<exists>e. forEachProcedure (newProcedureModel ext STAR) (json_stars j) pcs = Inl e))
            \<or> (\<forall>r. \<exists>e. fc_addItems ext (json_fixes j) r fcs = Inl e)"
  shows "\<exists>e. NavigationLibrary_init ext j (lib, fcs) = Inl e"
proof (rule not_Inr_is_Inl, intro allI notI)
  fix v
  assume v: "NavigationLibrary_init ext j (lib, fcs) = Inr v"
  obtain lib3 fc1 w where "v = (lib3, fc1, w)" by (cases v)
  with v have "NavigationLibrary_init ext j (lib, fcs) = Inr (lib3, fc1, w)" by simp
  from init_Inr_steps [OF this] obtain r ac pcs pc where
    s: "fc_addItems ext (json_fixes j) (Some r) fcs = Inr fc1"
      "forEachAirway (newAirwayModel ext fc1) (json_airways j) (u_airwayCollection lib) = Inr ac"
      "forEachProcedure (newProcedureModel ext SID) (json_sids j) (u_procedureCollection lib) = Inr pcs"
      "forEachProcedure (newProcedureModel ext STAR) (json_stars j) pcs = Inr pc"
    by blast
  from assms [of fc1] s show False
    by (metis Inl_Inr_False)
qed



lemma second_init_raises:
  assumes first: "NavigationLibrary_init ext j1 (lib0, fc0) = Inr (lib1, fc1, w1)"
    and again: "(\<forall>r. \<exists>e. fc_addItems ext (json_fixes j2) r fc1 = Inl e) \<or>
       set (map fst (json_airways j1)) \<inter> set (map fst (json_airways j2)) \<noteq> {} \<or>
       set (map fst (json_sids j1 @ json_stars j1)) \<inter>
         set (map fst (json_sids j2 @ json_stars j2)) \<noteq> {}"
  shows "\<exists>e. NavigationLibrary_init ext j2 (lib1, fc1) = Inl e"
proof -
  from init_Inr_steps [OF first] obtain pcs where
    ac: "forEachAirway (newAirwayModel ext fc1) (json_airways j1) (u_airwayCollection lib0) =
           Inr (u_airwayCollection lib1)"
    and ps: "forEachProcedure (newProcedureModel ext SID) (json_sids j1)
               (u_procedureCollection lib0) = Inr pcs"
    and pt: "forEachProcedure (newProcedureModel ext STAR) (json_stars j1) pcs =
               Inr (u_procedureCollection lib1)"
    by blast
  note ka = js_in_keys [OF forEachAirway_keys [OF ac]]
  from forEachProcedure_keys [OF ps] forEachProcedure_keys [OF pt]
  have "map fst (u_procedureCollection lib1) =
      map fst (u_procedureCollection lib0) @ map fst (json_sids j1 @ json_stars j1)"
    by simp
  note kp = js_in_keys [OF this]
  show ?thesis
  proof (rule init_raises)
    fix fc2
    let ?goal = "\<exists>e. forEachAirway (newAirwayModel ext fc2) (json_airways j2)
                (u_airwayCollection lib1) = Inl e
            \<or> (\<exists>e. forEachProcedure (newProcedureModel ext SID) (json_sids j2)
                      (u_procedureCollection lib1) = Inl e)
            \<or> (\<forall>pcs. forEachProcedure (newProcedureModel ext SID) (json_sids j2)
                        (u_procedureCollection lib1) = Inr pcs
                  \<longrightarrow> (\<exists>e. forEachProcedure (newProcedureModel ext STAR)
                              (json_stars j2) pcs = Inl e))
            \<or> (\<forall>r. \<exists>e. fc_addItems ext (json_fixes j2) r fc1 = Inl e)"
    from again [unfolded disjoint_iff map_append set_append Un_iff] consider
      (registry) "\<forall>r. \<exists>e. fc_addItems ext (json_fixes j2) r fc1 = Inl e"
      | (airway) n where "n \<in> set (map fst (json_airways j1))" "n \<in> set (map fst (json_airways j2))"
      | (sid) n where "n \<in> set (map fst (json_sids j1 @ json_stars j1))"
          "n \<in> set (map fst (json_sids j2))"
      | (star) n where "n \<in> set (map fst (json_sids j1 @ json_stars j1))"
          "n \<in> set (map fst (json_stars j2))"
      unfolding map_append set_append Un_iff by blast
    then show ?goal
    proof cases
      case registry
      then show ?thesis by blast
    next
      case airway
      with ka have "\<exists>n\<in>set (map fst (json_airways j2)). js_in n (u_airwayCollection lib1)"
        by blast
      then have "\<exists>e. forEachAirway (newAirwayModel ext fc2) (json_airways j2)
          (u_airwayCollection lib1) = Inl e"
        by (intro forEachAirway_raises) blast
      then show ?thesis by blast
    next
      case sid
      with kp have "\<exists>n\<in>set (map fst (json_sids j2)). js_in n (u_procedureCollection lib1)"
        by blast
      then have "\<exists>e. forEachProcedure (newProcedureModel ext SID) (json_sids j2)
          (u_procedureCollection lib1) = Inl e"
        by (intro forEachProcedure_raises) blast
      then show ?thesis by blast
    next
      case star
      with kp have in1: "js_in n (u_procedureCollection lib1)" by blast
      { fix pcs2
        assume "forEachProcedure (newProcedureModel ext SID) (json_sids j2)
            (u_procedureCollection lib1) = Inr pcs2"
        from js_in_keys [OF forEachProcedure_keys [OF this]] in1 star(2)
        have "\<exists>n\<in>set (map fst (json_stars j2)). js_in n pcs2" by blast
        then have "\<exists>e. forEachProcedure (newProcedureModel ext STAR) (json_stars j2) pcs2 = Inl e"
          by (intro forEachProcedure_raises) blast
      }
      then show ?thesis by blast
    qed
  qed
qed

section \<open>Claims on the navigation library\<close>

subsection \<open>C7: an airway or a procedure defined twice\<close>



subsection \<open>C8: fixes that are referenced and not defined\<close>



subsection \<open>C9: calls before and after \<open>init\<close>\<close>

text \<open>
  C9, as amended. The library keeps no record of having been initialised. On a new
  library \<open>hasAirway\<close> and \<open>hasProcedure\<close> answer false (true only for the names of
  inherited object properties), \<open>getAirway\<close> and \<open>getProcedure\<close> answer null,
  \<open>hasSids\<close> and \<open>hasStars\<close> answer false, and the fix queries answer what the fix
  registry answers. A second \<open>init\<close> after a successful one raises when the fix
  registry refuses to be filled again, or when the second airport has an airway name
  or a procedure id of the first.
\<close>

theorem C9_library_states:
  "hasAirway (NavigationLibrary_new :: ('a, 'p, 'r) NavigationLibrary) k =
     (k \<in> set objectPrototypeKeys) \<and>
   hasProcedure (NavigationLibrary_new :: ('a, 'p, 'r) NavigationLibrary) k =
     (k \<in> set objectPrototypeKeys) \<and>
   (k \<notin> set objectPrototypeKeys \<longrightarrow>
      getAirway (NavigationLibrary_new :: ('a, 'p, 'r) NavigationLibrary) k = None \<and>
      getProcedure (NavigationLibrary_new :: ('a, 'p, 'r) NavigationLibrary) k = None) \<and>
   \<not> hasSids ext (NavigationLibrary_new :: ('a, 'p, 'r) NavigationLibrary) \<and>
   \<not> hasStars ext (NavigationLibrary_new :: ('a, 'p, 'r) NavigationLibrary) \<and>
   findFixByName ext fcs k = fc_findFixByName ext fcs k \<and>
   hasFixName ext fcs k = (fc_findFixByName ext fcs k \<noteq> None) \<and>
   getFixRelativePosition ext fcs k = fc_getFixRelativePosition ext fcs k \<and>
   (NavigationLibrary_init ext j1 (lib0, fc0) = Inr (lib1, fc1, w1) \<and>
    ((\<forall>r. \<exists>e. fc_addItems ext (json_fixes j2) r fc1 = Inl e) \<or>
     set (map fst (json_airways j1)) \<inter> set (map fst (json_airways j2)) \<noteq> {} \<or>
     set (map fst (json_sids j1 @ json_stars j1)) \<inter>
       set (map fst (json_sids j2 @ json_stars j2)) \<noteq> {}) \<longrightarrow>
    (\<exists>e. NavigationLibrary_init ext j2 (lib1, fc1) = Inl e))"
proof -
  have q: "hasAirway (NavigationLibrary_new :: ('a, 'p, 'r) NavigationLibrary) k =
       (k \<in> set objectPrototypeKeys)"
    "hasProcedure (NavigationLibrary_new :: ('a, 'p, 'r) NavigationLibrary) k =
       (k \<in> set objectPrototypeKeys)"
    "k \<notin> set objectPrototypeKeys \<longrightarrow>
      getAirway (NavigationLibrary_new :: ('a, 'p, 'r) NavigationLibrary) k = None \<and>
      getProcedure (NavigationLibrary_new :: ('a, 'p, 'r) NavigationLibrary) k = None"
    "\<not> hasSids ext (NavigationLibrary_new :: ('a, 'p, 'r) NavigationLibrary)"
    "\<not> hasStars ext (NavigationLibrary_new :: ('a, 'p, 'r) NavigationLibrary)"
    by (simp_all add: hasAirway_def hasProcedure_def getAirway_def getProcedure_def
          hasSids_def hasStars_def NavigationLibrary_new_def js_in_def)
  have f: "findFixByName ext fcs k = fc_findFixByName ext fcs k"
    "hasFixName ext fcs k = (fc_findFixByName ext fcs k \<noteq> None)"
    "getFixRelativePosition ext fcs k = fc_getFixRelativePosition ext fcs k"
    by (simp_all add: findFixByName_def hasFixName_def getFixRelativePosition_def)
  have s: "NavigationLibrary_init ext j1 (lib0, fc0) = Inr (lib1, fc1, w1) \<and>
    ((\<forall>r. \<exists>e. fc_addItems ext (json_fixes j2) r fc1 = Inl e) \<or>
     set (map fst (json_airways j1)) \<inter> set (map fst (json_airways j2)) \<noteq> {} \<or>
     set (map fst (json_sids j1 @ json_stars j1)) \<inter>
       set (map fst (json_sids j2 @ json_stars j2)) \<noteq> {}) \<longrightarrow>
    (\<exists>e. NavigationLibrary_init ext j2 (lib1, fc1) = Inl e)"
    using second_init_raises [of ext j1 lib0 fc0 lib1 fc1 w1 j2] by blast
  from q f s show ?thesis by (intro conjI)
qed

text \<open>The sample airport loaded twice: the second \<open>init\<close> raises.\<close>

theorem C9_library_states_witness:
  "''V1'' \<notin> set objectPrototypeKeys \<and>
   getAirway (NavigationLibrary_new :: (string list, procedureType \<times> string list, unit) NavigationLibrary)
      ''V1'' = None \<and>
   set (map fst (json_airways sampleAirport)) \<inter> set (map fst (json_airways sampleAirport)) \<noteq> {} \<and>
   NavigationLibrary_init sampleCollaborators sampleAirport (NavigationLibrary_new, []) =
     Inr (\<lparr>u_airwayCollection = [(''V1'', [''BBB'', ''ZZZ'', ''AAA'']), (''V2'', [''ZZZ'', ''MMM''])],
           u_procedureCollection = [(''S1'', (SID, [''MMM'', ''AAA''])), (''T1'', (STAR, [''BBB'']))],
           u_referencePosition = Some ()\<rparr>,
          [(''AAA'', 1), (''BBB'', 2)],
          Some [''MMM'', ''ZZZ'']) \<and>
   (\<exists>e. NavigationLibrary_init sampleCollaborators sampleAirport
           (\<lparr>u_airwayCollection = [(''V1'', [''BBB'', ''ZZZ'', ''AAA'']), (''V2'', [''ZZZ'', ''MMM''])],
             u_procedureCollection = [(''S1'', (SID, [''MMM'', ''AAA''])), (''T1'', (STAR, [''BBB'']))],
             u_referencePosition = Some ()\<rparr>,
            [(''AAA'', 1), (''BBB'', 2)]) = Inl e)"
proof -
  have h1: "''V1'' \<notin> set objectPrototypeKeys"
    by (simp add: objectPrototypeKeys_def)
  have h2: "set (map fst (json_airways sampleAirport)) \<inter>
      set (map fst (json_airways sampleAirport)) \<noteq> {}"
    by (simp add: sampleAirport_def)
  note t = C9_library_states [where k = "''V1''" and ext = sampleCollaborators
      and ?j1.0 = sampleAirport and ?j2.0 = sampleAirport
      and ?lib0.0 = NavigationLibrary_new and ?fc0.0 = "[]"]
  from t h1 have a: "getAirway
      (NavigationLibrary_new :: (string list, procedureType \<times> string list, unit) NavigationLibrary)
      ''V1'' = None"
    by blast
  from t sample_init h2 have b: "\<exists>e. NavigationLibrary_init sampleCollaborators sampleAirport
           (\<lparr>u_airwayCollection = [(''V1'', [''BBB'', ''ZZZ'', ''AAA'']), (''V2'', [''ZZZ'', ''MMM''])],
             u_procedureCollection = [(''S1'', (SID, [''MMM'', ''AAA''])), (''T1'', (STAR, [''BBB'']))],
             u_referencePosition = Some ()\<rparr>,
            [(''AAA'', 1), (''BBB'', 2)]) = Inl e"
    by blast
  from h1 h2 a b sample_init show ?thesis by (simp only: simp_thms)
qed

text \<open>
  C9 as stated has every query raise before the first \<open>init\<close>. On a new library the
  queries return: false, null, false, null, false, false.
\<close>

theorem C9_counterexample:
  "hasAirway (NavigationLibrary_new :: (string list, procedureType \<times> string list, unit) NavigationLibrary)
      ''V1'' = False \<and>
   getAirway (NavigationLibrary_new :: (string list, procedureType \<times> string list, unit) NavigationLibrary)
      ''V1'' = None \<and>
   hasProcedure (NavigationLibrary_new :: (string list, procedureType \<times> string list, unit) NavigationLibrary)
      ''KEPEC1'' = False \<and>
   getProcedure (NavigationLibrary_new :: (string list, procedureType \<times> string list, unit) NavigationLibrary)
      ''KEPEC1'' = None \<and>
   hasSids sampleCollaborators NavigationLibrary_new = False \<and>
   hasStars sampleCollaborators NavigationLibrary_new = False"
  by (simp add: nav_eval)

end
